theory Spec2Isabelle
  imports Main "HOL-Library.Word"
begin

section \<open>Data model of monitor.go\<close>

text \<open>
  The Go errors the monitor distinguishes: \<open>sql.ErrNoRows\<close> is compared by identity in
  \<open>check\<close>; every other error only matters through its being non-nil. \<open>Errorf\<close> is
  an error built by \<open>fmt.Errorf\<close>: its format string and integer arguments.
\<close>

datatype error = ErrNoRows | Error string | Errorf string "int list"

text \<open>A run-time panic of the Go program (a nil pointer dereference).\<close>

datatype panic = NilPointerDereference

text \<open>
  Modelled from the spec: the \<open>gtid\<close> package is not part of the source at hand. A GTID is a
  triple (domain-id, server-id, sequence-number); a list of them is a replication position
  and \<open>GetSeqNos\<close> extracts the sequence numbers (unsigned 64-bit).
\<close>

record Gtid =
  DomainID :: "32 word"
  GServerID :: "32 word"
  SeqNo :: "64 word"

type_synonym GtidList = "Gtid list"

definition GetSeqNos :: "GtidList \<Rightarrow> 64 word list" where
  "GetSeqNos gl = map SeqNo gl"

text \<open>\<open>sql.NullInt64\<close>: the value is only compared, never computed with.\<close>

record NullInt64 =
  Int64 :: int
  Valid :: bool

text \<open>The fields of \<open>dbhelper.SlaveStatus\<close> that monitor.go reads.\<close>

record SlaveStatus =
  Using_Gtid :: string
  Slave_IO_Running :: string
  Slave_SQL_Running :: string
  Seconds_Behind_Master :: NullInt64
  Master_Server_Id :: "64 word"
  Master_Host :: string
  Last_IO_Errno :: "64 word"
  Last_IO_Error :: string
  Last_SQL_Error :: string
  Last_SQL_Errno :: "64 word"

text \<open>
  \<open>type ServerMonitor struct\<close>. \<open>Conn\<close> is the handle of the server's connection;
  \<open>FailCount\<close> is a Go \<open>int\<close>, kept as an integer in the 64-bit signed range with the
  wrap-around of \<open>++\<close> written out in \<open>incr\<close> below.
\<close>

record ServerMonitor =
  Conn :: nat
  URL :: string
  Host :: string
  Port :: string
  IP :: string
  BinlogPos :: GtidList
  Strict :: string
  ServerID :: "64 word"
  MasterServerID :: "64 word"
  MasterHost :: string
  LogBin :: string
  UsingGtid :: string
  CurrentGtid :: GtidList
  SlaveGtid :: GtidList
  IOThread :: string
  SQLThread :: string
  ReadOnly :: string
  Delay :: NullInt64
  State :: string
  PrevState :: string
  IOErrno :: "64 word"
  IOError :: string
  SQLErrno :: "64 word"
  SQLError :: string
  FailCount :: int
  SemiSyncMasterStatus :: bool
  RplMasterStatus :: bool

definition stateFailed :: string where "stateFailed = ''Failed''"
definition stateMaster :: string where "stateMaster = ''Master''"
definition stateSlave :: string where "stateSlave = ''Slave''"
definition stateUnconn :: string where "stateUnconn = ''Unconnected''"
definition stateSuspect :: string where "stateSuspect = ''Suspect''"

text \<open>\<open>x++\<close> on a 64-bit signed Go \<open>int\<close>: the successor, wrapping at \<open>2^63\<close>.\<close>

definition incr :: "int \<Rightarrow> int" where
  "incr x = (if x + 1 = 2 ^ 63 then - (2 ^ 63) else x + 1)"

text \<open>
  The process-wide configuration variables read by monitor.go (declared elsewhere in the
  program, so taken as parameters).
\<close>

record config =
  checktype :: string
  maxfail :: int
  mailFrom :: string
  mailTo :: string
  mailSMTPAddr :: string
  verbose :: bool
  loglevel :: int
  autorejoin :: bool
  readonly :: bool
  masterConn :: string
  rplUser :: string
  rplPass :: string
  ignoreList :: "string list"
  multiMaster :: bool
  maxDelay :: int
  gtidCheck :: bool
  prefMaster :: string

text \<open>
  Library functions whose code is outside the source at hand, taken as parameters:
  \<open>gtid.NewList\<close> (parsing a position) and \<open>strconv.ParseUint(_, 10, 0)\<close> with its error
  dropped and the result converted to \<open>uint\<close>.
\<close>

record extern =
  NewList :: "string \<Rightarrow> GtidList"
  ParseUint :: "string \<Rightarrow> 64 word"

text \<open>Reading a Go \<open>map[string]string\<close>: a missing key reads as the empty string.\<close>

definition lookup :: "(string \<rightharpoonup> string) \<Rightarrow> string \<Rightarrow> string" where
  "lookup m k = (case m k of None \<Rightarrow> [] | Some v \<Rightarrow> v)"

section \<open>refresh\<close>

text \<open>
  What the database answers to the calls of one \<open>refresh\<close>, in call order:
  \<open>Conn.Ping\<close>, \<open>dbhelper.GetVariables\<close>, \<open>dbhelper.SetDefaultMasterConn\<close>,
  \<open>dbhelper.GetStatus\<close>, \<open>dbhelper.GetSlaveStatus\<close>.
\<close>

record refresh_io =
  Ping :: "error option"
  GetVariables :: "error + (string \<rightharpoonup> string)"
  SetDefaultMasterConn :: "error option"
  GetStatus :: "string \<rightharpoonup> string"
  GetSlaveStatus :: "SlaveStatus \<times> error option"

text \<open>
  \<open>func (server *ServerMonitor) refresh() error\<close>: the returned error (\<open>None\<close> is nil)
  and the server record as the call leaves it.
\<close>

definition refresh :: "extern \<Rightarrow> refresh_io \<Rightarrow> ServerMonitor \<Rightarrow> error option \<times> ServerMonitor" where
  "refresh ext io server =
    (case Ping io of
       Some err \<Rightarrow> (Some err, server)
     | None \<Rightarrow>
        (case GetVariables io of
           Inl err \<Rightarrow> (Some err, server)
         | Inr sv \<Rightarrow>
            (let server = server
                   \<lparr> BinlogPos := NewList ext (lookup sv ''GTID_BINLOG_POS''),
                     Strict := lookup sv ''GTID_STRICT_MODE'',
                     LogBin := lookup sv ''LOG_BIN'',
                     ReadOnly := lookup sv ''READ_ONLY'',
                     CurrentGtid := NewList ext (lookup sv ''GTID_CURRENT_POS''),
                     SlaveGtid := NewList ext (lookup sv ''GTID_SLAVE_POS''),
                     ServerID := ParseUint ext (lookup sv ''SERVER_ID'') \<rparr>
             in case SetDefaultMasterConn io of
                  Some err \<Rightarrow> (Some err, server)
                | None \<Rightarrow>
                   (let su = GetStatus io;
                        server = server
                          \<lparr> SemiSyncMasterStatus :=
                              (lookup su ''RPL_SEMI_SYNC_MASTER_STATUS'' = ''ON'') \<rparr>;
                        slaveStatus = fst (GetSlaveStatus io)
                    in case snd (GetSlaveStatus io) of
                         Some err \<Rightarrow>
                           (None, server
                              \<lparr> UsingGtid := [],
                                IOThread := [],
                                SQLThread := [],
                                Delay := \<lparr> Int64 = 0, Valid = False \<rparr>,
                                MasterServerID := 0,
                                MasterHost := [],
                                IOErrno := 0,
                                IOError := [],
                                SQLError := [],
                                SQLErrno := 0 \<rparr>)
                       | None \<Rightarrow>
                           (None, server
                              \<lparr> UsingGtid := Using_Gtid slaveStatus,
                                IOThread := Slave_IO_Running slaveStatus,
                                SQLThread := Slave_SQL_Running slaveStatus,
                                Delay := Seconds_Behind_Master slaveStatus,
                                MasterServerID := Master_Server_Id slaveStatus,
                                MasterHost := Master_Host slaveStatus,
                                IOErrno := Last_IO_Errno slaveStatus,
                                IOError := Last_IO_Error slaveStatus,
                                SQLError := Last_SQL_Error slaveStatus,
                                SQLErrno := Last_SQL_Errno slaveStatus \<rparr>)))))"

section \<open>The cluster snapshot and check\<close>

text \<open>
  Servers are shared through pointers (\<open>master\<close>, \<open>slaves\<close> and the receiver of
  \<open>check\<close> may all be the same object), so the records live in a store indexed by
  address. \<open>master\<close> is \<open>None\<close> when the Go pointer is nil.
\<close>

type_synonym addr = nat

record Alert =
  From :: string
  To :: string
  Type :: string
  Origin :: string
  Destination :: string

text \<open>Calls to the logger: the format string (or the printed parts) with the arguments.\<close>

datatype logarg = ArgStr string | ArgInt int | ArgSeqs "64 word list" | ArgErr error

datatype logline = Logprintf string "logarg list" | Logprint "logarg list"

text \<open>Commands sent to collaborators: the metrics sink, the mailer and the database.\<close>

datatype effect =
    SetMasterUpAndSync bool bool
  | EmailAlert Alert
  | SetReadOnly nat bool
  | Exec nat string
  | StartSlave nat

record world =
  heap :: "addr \<Rightarrow> ServerMonitor"
  master :: "addr option"
  slaves :: "addr list"
  logs :: "logline list"
  effects :: "effect list"

definition upd :: "addr \<Rightarrow> (ServerMonitor \<Rightarrow> ServerMonitor) \<Rightarrow> world \<Rightarrow> world" where
  "upd a f w = w\<lparr>heap := (heap w)(a := f (heap w a))\<rparr>"

definition logw :: "logline \<Rightarrow> world \<Rightarrow> world" where
  "logw ln w = w\<lparr>logs := logs w @ [ln]\<rparr>"

definition emit :: "effect \<Rightarrow> world \<Rightarrow> world" where
  "emit e w = w\<lparr>effects := effects w @ [e]\<rparr>"

text \<open>
  What the outside world answers during one \<open>check\<close>: the driver's ping, \<open>http.Get\<close>
  (the status code of the response, \<open>None\<close> for a nil response, and the error), the
  mailer, the error of \<open>dbhelper.GetSlaveStatus\<close>, the \<open>CHANGE MASTER\<close> of rejoin and
  \<open>dbhelper.SetReadOnly\<close>.
\<close>

record check_io =
  ConnPing :: "error option"
  HttpGet :: "int option \<times> error option"
  Email :: "error option"
  SlaveStatusErr :: "error option"
  RejoinExec :: "error option"
  SetReadOnlyErr :: "error option"

text \<open>
  The \<open>switch checktype\<close> of \<open>check\<close>. In the agent case \<open>resp.StatusCode\<close> is read
  whatever \<open>err\<close> is, which dereferences a nil response.
\<close>

definition probe :: "config \<Rightarrow> check_io \<Rightarrow> panic + error option" where
  "probe cfg io =
    (if checktype cfg = ''tcp'' then Inr (ConnPing io)
     else if checktype cfg = ''agent'' then
       (case fst (HttpGet io) of
          None \<Rightarrow> Inl NilPointerDereference
        | Some StatusCode \<Rightarrow>
            if StatusCode \<noteq> 200
            then Inr (Some (Errorf ''HTTP Response Code Error: %d'' [StatusCode]))
            else Inr (snd (HttpGet io)))
     else Inr None)"

text \<open>
  \<open>func (server *ServerMonitor) delete(sl *serverList)\<close>: the first entry with the
  server's URL is overwritten by the last one and the list is cut by one.
\<close>

fun find_url :: "(addr \<Rightarrow> ServerMonitor) \<Rightarrow> string \<Rightarrow> addr list \<Rightarrow> nat option" where
  "find_url h u [] = None"
| "find_url h u (s # lsm) =
     (if u = URL (h s) then Some 0 else map_option Suc (find_url h u lsm))"

definition delete :: "addr \<Rightarrow> world \<Rightarrow> world" where
  "delete server w =
    (case find_url (heap w) (URL (heap w server)) (slaves w) of
       None \<Rightarrow> w
     | Some k \<Rightarrow> w\<lparr>slaves := butlast ((slaves w)[k := last (slaves w)])\<rparr>)"

text \<open>\<open>func (server *ServerMonitor) rejoin() error\<close>\<close>

definition rejoin :: "config \<Rightarrow> check_io \<Rightarrow> addr \<Rightarrow> world \<Rightarrow> panic + (error option \<times> world)" where
  "rejoin cfg io server w =
    (let w = (if readonly cfg then emit (SetReadOnly (Conn (heap w server)) True) w else w)
     in case master w of
          None \<Rightarrow> Inl NilPointerDereference
        | Some m \<Rightarrow>
           (let cm = ''CHANGE MASTER TO master_host='' @ [CHR 0x27] @ IP (heap w m) @ [CHR 0x27]
                       @ '', master_port='' @ Port (heap w m)
                       @ '', master_user='' @ [CHR 0x27] @ rplUser cfg @ [CHR 0x27]
                       @ '', master_password='' @ [CHR 0x27] @ rplPass cfg @ [CHR 0x27]
                       @ '', MASTER_USE_GTID=CURRENT_POS'';
                w = emit (Exec (Conn (heap w server)) cm) w;
                w = emit (StartSlave (Conn (heap w server))) w
            in Inr (RejoinExec io, w)))"

text \<open>The branch of \<open>check\<close> taken when the probe returned the error \<open>err\<close>.\<close>

definition state_on_failure :: "config \<Rightarrow> addr \<Rightarrow> error \<Rightarrow> world \<Rightarrow> panic + world" where
  "state_on_failure cfg server err w =
    (if err \<noteq> ErrNoRows \<and>
        (State (heap w server) = stateMaster \<or> State (heap w server) = stateSuspect) then
       (let w = upd server (\<lambda>s. s\<lparr>FailCount := incr (FailCount s)\<rparr>) w
        in case master w of
             None \<Rightarrow> Inl NilPointerDereference
           | Some m \<Rightarrow>
              if URL (heap w server) = URL (heap w m) then
                (let w = (if FailCount (heap w m) \<le> maxfail cfg
                          then logw (Logprintf ''WARN : Master Failure detected! Retry %d/%d''
                                 [ArgInt (FailCount (heap w m)), ArgInt (maxfail cfg)]) w
                          else w)
                 in if FailCount (heap w server) \<ge> maxfail cfg then
                      (let w = (if FailCount (heap w server) = maxfail cfg
                                then logw (Logprint [ArgStr ''WARN : Declaring master as failed'']) w
                                else w)
                       in Inr (upd m (\<lambda>s. s\<lparr>State := stateFailed\<rparr>) w))
                    else Inr (upd m (\<lambda>s. s\<lparr>State := stateSuspect\<rparr>) w))
              else Inr w)
     else if State (heap w server) \<noteq> stateMaster \<and> State (heap w server) \<noteq> stateFailed then
       (let w = upd server (\<lambda>s. s\<lparr>FailCount := incr (FailCount s)\<rparr>) w
        in if FailCount (heap w server) \<ge> maxfail cfg then
             (let w = (if FailCount (heap w server) = maxfail cfg
                       then upd server (\<lambda>s. s\<lparr>State := stateFailed\<rparr>)
                              (logw (Logprintf ''WARN : Declaring server %s as failed''
                                 [ArgStr (URL (heap w server))]) w)
                       else upd server (\<lambda>s. s\<lparr>State := stateSuspect\<rparr>) w)
              in Inr (delete server w))
           else Inr w)
     else Inr w)"

text \<open>The alert sent at the end of the failure branch when the state has changed.\<close>

definition send_alert :: "config \<Rightarrow> check_io \<Rightarrow> addr \<Rightarrow> world \<Rightarrow> world" where
  "send_alert cfg io server w =
    (if PrevState (heap w server) \<noteq> State (heap w server) \<and> mailTo cfg \<noteq> [] then
       (let w = (if verbose cfg
                 then logw (Logprintf ''INFO : Server %s state changed from %s to %s''
                        [ArgStr (URL (heap w server)), ArgStr (PrevState (heap w server)),
                         ArgStr (State (heap w server))]) w
                 else w);
            w = emit (EmailAlert \<lparr> From = mailFrom cfg, To = mailTo cfg,
                        Type = State (heap w server), Origin = URL (heap w server),
                        Destination = mailSMTPAddr cfg \<rparr>) w
        in case Email io of
             Some err \<Rightarrow> logw (Logprint [ArgStr ''ERROR: Could not send email alert: '', ArgErr err]) w
           | None \<Rightarrow> w)
     else w)"

text \<open>The rest of \<open>check\<close> after a successful probe (from "uptime monitoring" on).\<close>

definition on_success :: "config \<Rightarrow> check_io \<Rightarrow> addr \<Rightarrow> world \<Rightarrow> panic + world" where
  "on_success cfg io server w =
    (let w = (if State (heap w server) = stateMaster
              then emit (SetMasterUpAndSync (SemiSyncMasterStatus (heap w server))
                     (RplMasterStatus (heap w server))) w
              else w)
     in if SlaveStatusErr io = Some ErrNoRows then
          (if PrevState (heap w server) = stateFailed then
             (let w = (if loglevel cfg > 1
                       then logw (Logprintf
                              ''DEBUG: State comparison reinitialized failed server %s as unconnected''
                              [ArgStr (URL (heap w server))]) w
                       else w);
                  w = upd server (\<lambda>s. s\<lparr>State := stateUnconn\<rparr>) w;
                  w = upd server (\<lambda>s. s\<lparr>FailCount := 0\<rparr>) w
              in if autorejoin cfg then
                   (case master w of
                      None \<Rightarrow> Inl NilPointerDereference
                    | Some m \<Rightarrow>
                       if URL (heap w server) \<noteq> URL (heap w m) then
                         (let w = logw (Logprintf ''INFO : Rejoining previously failed server %s''
                                    [ArgStr (URL (heap w server))]) w
                          in case rejoin cfg io server w of
                               Inl p \<Rightarrow> Inl p
                             | Inr (None, w) \<Rightarrow> Inr w
                             | Inr (Some err, w) \<Rightarrow>
                                 Inr (logw (Logprintf
                                   ''ERROR: Failed to autojoin previously failed server %s''
                                   [ArgStr (URL (heap w server))]) w))
                       else Inr w)
                 else Inr w)
           else if State (heap w server) \<noteq> stateMaster then
             (let w = (if loglevel cfg > 1
                       then logw (Logprintf
                              ''DEBUG: State unconnected set by non-master rule on server %s''
                              [ArgStr (URL (heap w server))]) w
                       else w)
              in Inr (upd server (\<lambda>s. s\<lparr>State := stateUnconn\<rparr>) w))
           else Inr w)
        else if PrevState (heap w server) = stateFailed \<or> PrevState (heap w server) = stateUnconn then
          (let w = upd server (\<lambda>s. s\<lparr>State := stateSlave\<rparr>) w;
               w = upd server (\<lambda>s. s\<lparr>FailCount := 0\<rparr>) w;
               w = w\<lparr>slaves := slaves w @ [server]\<rparr>
           in if readonly cfg then
                (let w = emit (SetReadOnly (Conn (heap w server)) True) w
                 in case SetReadOnlyErr io of
                      Some err \<Rightarrow>
                        Inr (logw (Logprintf
                          ''ERROR: Could not set rejoining slave %s as read-only, %s''
                          [ArgStr (URL (heap w server)), ArgErr err]) w)
                    | None \<Rightarrow> Inr w)
              else Inr w)
        else Inr w)"

text \<open>
  \<open>func (server *ServerMonitor) check(wg *sync.WaitGroup)\<close>, for the server at address
  \<open>server\<close>. The deferred \<open>wg.Done()\<close> only signals the caller and is left out.
\<close>

definition check :: "config \<Rightarrow> check_io \<Rightarrow> addr \<Rightarrow> world \<Rightarrow> panic + world" where
  "check cfg io server w =
    (let w = (if PrevState (heap w server) \<noteq> State (heap w server)
              then upd server (\<lambda>s. s\<lparr>PrevState := State s\<rparr>) w
              else w)
     in case probe cfg io of
          Inl p \<Rightarrow> Inl p
        | Inr (Some err) \<Rightarrow>
           (case state_on_failure cfg server err w of
              Inl p \<Rightarrow> Inl p
            | Inr w \<Rightarrow> Inr (send_alert cfg io server w))
        | Inr None \<Rightarrow> on_success cfg io server w)"

text \<open>
  A run of the monitor: one \<open>check\<close> after the other, each with the address of the server
  checked and what the outside world answered; a panic ends the run.
\<close>

fun ticks :: "config \<Rightarrow> (addr \<times> check_io) list \<Rightarrow> world \<Rightarrow> panic + world" where
  "ticks cfg [] w = Inr w"
| "ticks cfg ((server, io) # rest) w =
     (case check cfg io server w of
        Inl p \<Rightarrow> Inl p
      | Inr w' \<Rightarrow> ticks cfg rest w')"

section \<open>electCandidate\<close>

text \<open>
  Modelled from the spec: \<open>contains\<close> is defined outside the source at hand; the spec has
  a candidate skipped when its URL is in the configured ignore list.
\<close>

fun contains :: "string list \<Rightarrow> string \<Rightarrow> bool" where
  "contains [] u = False"
| "contains (x # xs) u = (if x = u then True else contains xs u)"

text \<open>
  What the database answers while candidate number \<open>i\<close> is examined: the calls of its
  \<open>refresh\<close>, then \<open>dbhelper.CheckSlavePrerequisites\<close>, \<open>CheckBinlogFilters\<close>,
  \<open>CheckReplicationFilters\<close>, the status returned by \<open>GetSlaveStatus\<close> (its error is
  dropped by the code) and \<open>CheckSlaveSync\<close>.
\<close>

record elect_io =
  Refresh :: refresh_io
  CheckSlavePrerequisites :: bool
  CheckBinlogFilters :: bool
  CheckReplicationFilters :: bool
  ElectSlaveStatus :: SlaveStatus
  CheckSlaveSync :: bool

text \<open>The local variables of \<open>electCandidate\<close> that the loop updates.\<close>

record elect_vars =
  seqList :: "64 word list"
  hiseq :: nat
  max_seq :: "64 word"

text \<open>
  The eligibility checks of one iteration (the \<open>if server.State != stateFailed || ...\<close>
  block): \<open>False\<close> when the iteration ends in a \<open>continue\<close>, with the lines logged.
  \<open>server\<close> is the receiver (the old master), \<open>sl\<close> the candidate after its refresh.
\<close>

definition eligible ::
  "config \<Rightarrow> elect_io \<Rightarrow> ServerMonitor \<Rightarrow> ServerMonitor \<Rightarrow> nat \<Rightarrow> bool \<times> logline list" where
  "eligible cfg io server sl i =
    (if State server \<noteq> stateFailed \<or> State server = stateMaster then
       (let lg = (if verbose cfg
                  then [Logprintf ''DEBUG: Checking eligibility of slave server %s [%d]''
                          [ArgStr (URL sl), ArgInt (int i)]]
                  else [])
        in if multiMaster cfg = True \<and> State sl = stateMaster then
             (False, lg @ [Logprintf ''WARN : Slave %s has state Master. Skipping'' [ArgStr (URL sl)]])
           else if CheckSlavePrerequisites io = False then (False, lg)
           else if CheckBinlogFilters io = False then
             (False, lg @ [Logprintf ''WARN : Binlog filters differ on master and slave %s. Skipping''
                             [ArgStr (URL sl)]])
           else if CheckReplicationFilters io = False then
             (False, lg @ [Logprintf
                             ''WARN : Replication filters differ on master and slave %s. Skipping''
                             [ArgStr (URL sl)]])
           else
             (let ss = ElectSlaveStatus io
              in if Valid (Seconds_Behind_Master ss) = False then
                   (False, lg @ [Logprintf ''WARN : Slave %s is stopped. Skipping'' [ArgStr (URL sl)]])
                 else if Int64 (Seconds_Behind_Master ss) > maxDelay cfg then
                   (False, lg @ [Logprintf
                      ''WARN : Slave %s has more than %d seconds of replication delay (%d). Skipping''
                      [ArgStr (URL sl), ArgInt (maxDelay cfg),
                       ArgInt (Int64 (Seconds_Behind_Master ss))]])
                 else if gtidCheck cfg \<and> CheckSlaveSync io = False then
                   (False, lg @ [Logprintf ''WARN : Slave %s not in sync. Skipping'' [ArgStr (URL sl)]])
                 else (True, lg)))
     else (True, []))"

text \<open>
  One iteration of \<open>for i, sl := range l\<close>: \<open>Inl\<close> is the early \<open>return i\<close> of the
  election rig, \<open>Inr\<close> the state with which the loop goes on.
\<close>

definition elect_step ::
  "extern \<Rightarrow> config \<Rightarrow> elect_io \<Rightarrow> addr \<Rightarrow> addr \<Rightarrow> nat \<Rightarrow> world \<times> elect_vars
     \<Rightarrow> (nat \<times> world) + (world \<times> elect_vars)" where
  "elect_step ext cfg io server sl i st =
    (let w = fst st; v = snd st
     in if contains (ignoreList cfg) (URL (heap w sl)) then
          Inr ((if verbose cfg
                then logw (Logprintf ''DEBUG: %s is in the ignore list. Skipping''
                       [ArgStr (URL (heap w sl))]) w
                else w), v)
        else
          (let w = upd sl (\<lambda>s. snd (refresh ext (Refresh io) s)) w;
               chk = eligible cfg io (heap w server) (heap w sl) i;
               w = w\<lparr>logs := logs w @ snd chk\<rparr>
           in if fst chk = False then Inr (w, v)
              else if URL (heap w sl) = prefMaster cfg then
                Inl (i, (if verbose cfg
                         then logw (Logprintf ''DEBUG: Election rig: %s elected as preferred master''
                                [ArgStr (URL (heap w sl))]) w
                         else w))
              else
                (let seqnos = GetSeqNos (SlaveGtid (heap w sl));
                     w = (if verbose cfg
                          then logw (Logprintf ''DEBUG: Got sequence(s) %v for server [%d]''
                                 [ArgSeqs seqnos, ArgInt (int i)]) w
                          else w);
                     v = v\<lparr>seqList := (seqList v)[i := foldl (+) (seqList v ! i) seqnos]\<rparr>;
                     v = (if seqList v ! i > max_seq v
                          then v\<lparr>max_seq := seqList v ! i, hiseq := i\<rparr>
                          else v)
                 in Inr (w, v))))"

fun elect_loop ::
  "extern \<Rightarrow> config \<Rightarrow> (nat \<Rightarrow> elect_io) \<Rightarrow> addr \<Rightarrow> addr list \<Rightarrow> nat \<Rightarrow> world \<times> elect_vars
     \<Rightarrow> (nat \<times> world) + (world \<times> elect_vars)" where
  "elect_loop ext cfg io server [] i st = Inr st"
| "elect_loop ext cfg io server (sl # l) i st =
     (case elect_step ext cfg (io i) server sl i st of
        Inl r \<Rightarrow> Inl r
      | Inr st' \<Rightarrow> elect_loop ext cfg io server l (Suc i) st')"

text \<open>
  \<open>func (server *ServerMonitor) electCandidate(l []*ServerMonitor) int\<close>: the returned
  index and the world as the call leaves it. \<open>io i\<close> is what the database answers while
  candidate \<open>i\<close> is examined.
\<close>

definition electCandidate ::
  "extern \<Rightarrow> config \<Rightarrow> (nat \<Rightarrow> elect_io) \<Rightarrow> addr \<Rightarrow> addr list \<Rightarrow> world \<Rightarrow> int \<times> world" where
  "electCandidate ext cfg io server l w =
    (let ll = length l;
         w = (if verbose cfg
              then logw (Logprintf ''DEBUG: Processing %d candidates'' [ArgInt (int ll)]) w
              else w);
         v = \<lparr> seqList = replicate ll 0, hiseq = 0, max_seq = 0 \<rparr>
     in case elect_loop ext cfg io server l 0 (w, v) of
          Inl r \<Rightarrow> (int (fst r), snd r)
        | Inr st \<Rightarrow>
           if max_seq (snd st) > 0 then (int (hiseq (snd st)), fst st)
           else (- 1, logw (Logprint [ArgStr ''ERROR: No suitable candidates found.'']) (fst st)))"

text \<open>
  The words of the spec for the election, against which the loop is compared. A candidate
  is examined when its URL is not in the ignore list and no eligibility check skips it.
\<close>

definition examined ::
  "config \<Rightarrow> (nat \<Rightarrow> elect_io) \<Rightarrow> addr \<Rightarrow> addr list \<Rightarrow> (addr \<Rightarrow> ServerMonitor) \<Rightarrow> nat \<Rightarrow> bool" where
  "examined cfg io server l h i =
    (\<not> contains (ignoreList cfg) (URL (h (l ! i))) \<and>
     fst (eligible cfg (io i) (h server) (h (l ! i)) i))"

text \<open>
  The store after candidate \<open>sl\<close> has had its turn (it is refreshed unless its URL is
  in the ignore list), and its score: \<open>None\<close> when it is skipped, otherwise the sum, in
  unsigned 64-bit arithmetic, of the sequence numbers of its \<open>SlaveGtid\<close> as the refresh
  left it.
\<close>

definition refreshed ::
  "extern \<Rightarrow> config \<Rightarrow> elect_io \<Rightarrow> addr \<Rightarrow> (addr \<Rightarrow> ServerMonitor) \<Rightarrow> (addr \<Rightarrow> ServerMonitor)" where
  "refreshed ext cfg io sl h =
    (if contains (ignoreList cfg) (URL (h sl)) then h
     else h(sl := snd (refresh ext (Refresh io) (h sl))))"

definition candidate_score ::
  "extern \<Rightarrow> config \<Rightarrow> elect_io \<Rightarrow> addr \<Rightarrow> addr \<Rightarrow> nat \<Rightarrow> (addr \<Rightarrow> ServerMonitor)
     \<Rightarrow> 64 word option" where
  "candidate_score ext cfg io server sl i h =
    (if contains (ignoreList cfg) (URL (h sl)) then None
     else if fst (eligible cfg io (refreshed ext cfg io sl h server) (refreshed ext cfg io sl h sl) i)
     then Some (sum_list (GetSeqNos (SlaveGtid (refreshed ext cfg io sl h sl))))
     else None)"

text \<open>The scores of the candidates of \<open>l\<close> (numbered from \<open>i\<close>), in list order.\<close>

fun spec_scores ::
  "extern \<Rightarrow> config \<Rightarrow> (nat \<Rightarrow> elect_io) \<Rightarrow> addr \<Rightarrow> addr list \<Rightarrow> nat \<Rightarrow> (addr \<Rightarrow> ServerMonitor)
     \<Rightarrow> 64 word option list" where
  "spec_scores ext cfg io server [] i h = []"
| "spec_scores ext cfg io server (sl # l) i h =
     candidate_score ext cfg (io i) server sl i h
       # spec_scores ext cfg io server l (Suc i) (refreshed ext cfg (io i) sl h)"

text \<open>
  What the loop has found after the candidates with scores \<open>ps\<close>: \<open>max\<close> bounds every
  score, and when it is positive \<open>hiseq\<close> is the first candidate that attains it.
\<close>

definition tracks :: "64 word option list \<Rightarrow> elect_vars \<Rightarrow> bool" where
  "tracks ps v =
    ((\<forall>j<length ps. \<forall>t. ps ! j = Some t \<longrightarrow> t \<le> max_seq v) \<and>
     (0 < max_seq v \<longrightarrow>
        hiseq v < length ps \<and> ps ! hiseq v = Some (max_seq v) \<and>
        (\<forall>j<hiseq v. \<forall>t. ps ! j = Some t \<longrightarrow> t < max_seq v)))"

text \<open>
  Candidate \<open>k\<close> of \<open>l\<close> triggers the election rig: it is not skipped and its URL is
  the preferred master.
\<close>

definition rigged ::
  "extern \<Rightarrow> config \<Rightarrow> (nat \<Rightarrow> elect_io) \<Rightarrow> addr \<Rightarrow> addr list \<Rightarrow> nat \<Rightarrow> (addr \<Rightarrow> ServerMonitor)
     \<Rightarrow> nat \<Rightarrow> bool" where
  "rigged ext cfg io server l i h k =
    (spec_scores ext cfg io server l i h ! k \<noteq> None \<and> URL (h (l ! k)) = prefMaster cfg)"

section \<open>Example cluster\<close>

text \<open>
  Four servers used to run the definitions on concrete inputs: \<open>db1\<close> at address 0,
  \<open>db2\<close> at address 1, \<open>db3\<close> at address 2 and \<open>db4\<close> at address 3.
\<close>

definition gtid_ex :: "64 word \<Rightarrow> Gtid" where
  "gtid_ex n = \<lparr> DomainID = 0, GServerID = 1, SeqNo = n \<rparr>"

definition ext_ex :: extern where
  "ext_ex = \<lparr> NewList = (\<lambda>s. if s = ''0-1-100'' then [gtid_ex 100]
                           else if s = ''0-1-180'' then [gtid_ex 180]
                           else if s = ''0-1-250'' then [gtid_ex 250]
                           else []),
              ParseUint = (\<lambda>s. if s = ''1'' then 1 else if s = ''2'' then 2
                            else if s = ''3'' then 3 else 0) \<rparr>"

definition srv_ex :: "string \<Rightarrow> string \<Rightarrow> ServerMonitor" where
  "srv_ex host st =
    \<lparr> Conn = 0, URL = host @ '':3306'', Host = host, Port = ''3306'', IP = [],
      BinlogPos = [], Strict = [], ServerID = 0, MasterServerID = 0, MasterHost = [],
      LogBin = [], UsingGtid = [], CurrentGtid = [], SlaveGtid = [], IOThread = [],
      SQLThread = [], ReadOnly = [], Delay = \<lparr> Int64 = 0, Valid = False \<rparr>,
      State = st, PrevState = st, IOErrno = 0, IOError = [], SQLErrno = 0, SQLError = [],
      FailCount = 0, SemiSyncMasterStatus = False, RplMasterStatus = False \<rparr>"

definition cfg_ex :: config where
  "cfg_ex =
    \<lparr> checktype = ''tcp'', maxfail = 3, mailFrom = ''repmgr@x'', mailTo = ''ops@x'',
      mailSMTPAddr = ''localhost:25'', verbose = False, loglevel = 0, autorejoin = False,
      readonly = False, masterConn = [], rplUser = ''repl'', rplPass = ''secret'',
      ignoreList = [], multiMaster = False, maxDelay = 30, gtidCheck = False,
      prefMaster = [] \<rparr>"

definition status_ex :: "bool \<Rightarrow> SlaveStatus" where
  "status_ex running =
    \<lparr> Using_Gtid = ''Slave_Pos'', Slave_IO_Running = ''Yes'', Slave_SQL_Running = ''Yes'',
      Seconds_Behind_Master = \<lparr> Int64 = 0, Valid = running \<rparr>, Master_Server_Id = 1,
      Master_Host = ''db1'', Last_IO_Errno = 0, Last_IO_Error = [], Last_SQL_Error = [],
      Last_SQL_Errno = 0 \<rparr>"

text \<open>A refresh whose ping fails, and a refresh that succeeds and reads the position \<open>pos\<close>.\<close>

definition refresh_down :: refresh_io where
  "refresh_down =
    \<lparr> Ping = Some (Error ''connection refused''), GetVariables = Inl (Error ''connection refused''),
      SetDefaultMasterConn = None, GetStatus = Map.empty,
      GetSlaveStatus = (status_ex False, Some ErrNoRows) \<rparr>"

definition refresh_vars :: "string \<Rightarrow> refresh_io" where
  "refresh_vars pos =
    \<lparr> Ping = None,
      GetVariables = Inr [''GTID_BINLOG_POS'' \<mapsto> pos, ''GTID_CURRENT_POS'' \<mapsto> pos,
                          ''GTID_SLAVE_POS'' \<mapsto> pos, ''SERVER_ID'' \<mapsto> ''2'',
                          ''LOG_BIN'' \<mapsto> ''ON'', ''READ_ONLY'' \<mapsto> ''OFF''],
      SetDefaultMasterConn = None, GetStatus = Map.empty,
      GetSlaveStatus = (status_ex True, None) \<rparr>"

text \<open>
  The cluster: \<open>db1\<close> is the master, \<open>db2\<close>, \<open>db3\<close> and \<open>db4\<close> are its slaves;
  nobody has failed yet.
\<close>

definition w_ex :: world where
  "w_ex = \<lparr> heap = (\<lambda>_. srv_ex ''db1'' stateMaster)
                      (1 := srv_ex ''db2'' stateSlave, 2 := srv_ex ''db3'' stateSlave,
                       3 := srv_ex ''db4'' stateSlave),
            master = Some 0, slaves = [1, 2, 3], logs = [], effects = [] \<rparr>"

text \<open>
  A tick on which the server is unreachable (the ping fails, \<open>http.Get\<close> returns a nil
  response with an error), and a tick on which it answers, \<open>e\<close> being the error of
  \<open>GetSlaveStatus\<close>.
\<close>

definition io_down :: check_io where
  "io_down = \<lparr> ConnPing = Some (Error ''connection refused''),
               HttpGet = (None, Some (Error ''connection refused'')),
               Email = None, SlaveStatusErr = None, RejoinExec = None, SetReadOnlyErr = None \<rparr>"

definition io_up :: "error option \<Rightarrow> check_io" where
  "io_up e = \<lparr> ConnPing = None, HttpGet = (Some 200, None),
               Email = None, SlaveStatusErr = e, RejoinExec = None, SetReadOnlyErr = None \<rparr>"

text \<open>
  What the database answers during elections among the three slaves: candidate \<open>k\<close> is
  healthy and at position \<open>pos\<close> in \<open>cand_io pos ss\<close>, its slave status being \<open>ss\<close>.
  In \<open>io_tie\<close> the sums of the sequence numbers are 100, 250, 250; in \<open>io_pref\<close> they
  are 100, 250, 180; in \<open>io_lagging\<close> the first candidate has stopped replicating and
  the second is 100 seconds behind.
\<close>

definition cand_io :: "string \<Rightarrow> SlaveStatus \<Rightarrow> elect_io" where
  "cand_io pos ss =
    \<lparr> Refresh = refresh_vars pos, CheckSlavePrerequisites = True, CheckBinlogFilters = True,
      CheckReplicationFilters = True, ElectSlaveStatus = ss, CheckSlaveSync = True \<rparr>"

definition io_tie :: "nat \<Rightarrow> elect_io" where
  "io_tie k = cand_io (if k = 0 then ''0-1-100'' else ''0-1-250'') (status_ex True)"

definition io_pref :: "nat \<Rightarrow> elect_io" where
  "io_pref k = cand_io (if k = 0 then ''0-1-100'' else if k = 1 then ''0-1-250'' else ''0-1-180'')
                 (status_ex True)"

definition io_lagging :: "nat \<Rightarrow> elect_io" where
  "io_lagging k =
    (if k = 0 then cand_io ''0-1-100'' (status_ex False)
     else cand_io ''0-1-250''
            ((status_ex True)\<lparr>Seconds_Behind_Master := \<lparr> Int64 = 100, Valid = True \<rparr>\<rparr>))"

text \<open>The cluster once the master \<open>db1\<close> has been declared failed.\<close>

definition w_failover :: world where
  "w_failover = upd 0 (\<lambda>s. s\<lparr>State := stateFailed\<rparr>) w_ex"

text \<open>What is read off the outcome of a run: \<open>None\<close> when it panicked.\<close>

definition state_after :: "addr \<Rightarrow> panic + world \<Rightarrow> string option" where
  "state_after a r = (case r of Inl p \<Rightarrow> None | Inr w \<Rightarrow> Some (State (heap w a)))"

definition failcount_after :: "addr \<Rightarrow> panic + world \<Rightarrow> int option" where
  "failcount_after a r = (case r of Inl p \<Rightarrow> None | Inr w \<Rightarrow> Some (FailCount (heap w a)))"

definition slaves_after :: "panic + world \<Rightarrow> addr list option" where
  "slaves_after r = (case r of Inl p \<Rightarrow> None | Inr w \<Rightarrow> Some (slaves w))"

definition effects_after :: "panic + world \<Rightarrow> effect list option" where
  "effects_after r = (case r of Inl p \<Rightarrow> None | Inr w \<Rightarrow> Some (effects w))"

text \<open>
  The line \<open>logprint("WARN : Declaring master as failed")\<close>, and how many times a run
  has logged it.
\<close>

definition declaring_master_failed :: logline where
  "declaring_master_failed = Logprint [ArgStr ''WARN : Declaring master as failed'']"

definition declared_after :: "panic + world \<Rightarrow> nat option" where
  "declared_after r =
    (case r of Inl p \<Rightarrow> None | Inr w \<Rightarrow> Some (count_list (logs w) declaring_master_failed))"

section \<open>Properties of refresh\<close>

lemmas state_defs = stateFailed_def stateMaster_def stateSlave_def stateUnconn_def
  stateSuspect_def

text \<open>\<open>refresh\<close> never writes the identity or the monitoring state of the server.\<close>

lemma refresh_URL: "URL (snd (refresh ext io s)) = URL s"
  by (simp add: refresh_def Let_def split: option.splits sum.splits)

lemma refresh_State: "State (snd (refresh ext io s)) = State s"
  by (simp add: refresh_def Let_def split: option.splits sum.splits)

text \<open>
  C9. If the initial ping of \<open>refresh\<close> fails, \<open>refresh\<close> returns that error and the
  server record is returned as it was: no field is written.
\<close>

theorem refresh_ping_failure_unchanged:
  "Ping io = Some err \<Longrightarrow> refresh ext io server = (Some err, server)"
  by (simp add: refresh_def)

theorem refresh_ping_failure_unchanged_witness:
  "Ping refresh_down = Some (Error ''connection refused'') \<and>
   refresh ext_ex refresh_down (srv_ex ''db2'' stateSlave)
     = (Some (Error ''connection refused''), srv_ex ''db2'' stateSlave)"
proof -
  have p: "Ping refresh_down = Some (Error ''connection refused'')"
    by (simp add: refresh_down_def)
  from refresh_ping_failure_unchanged [OF p] p show ?thesis by simp
qed

text \<open>
  C10. \<open>refresh\<close> is not atomic once the server variables have been read: when the ping
  and \<open>GetVariables\<close> succeed and \<open>SET default_master_connection\<close> fails, \<open>refresh\<close>
  returns that (non-nil) error, and the record it leaves has \<open>BinlogPos\<close>, \<open>Strict\<close>,
  \<open>LogBin\<close>, \<open>ReadOnly\<close>, \<open>CurrentGtid\<close>, \<open>SlaveGtid\<close> and \<open>ServerID\<close> overwritten
  with the values just read (and nothing else changed).
\<close>

theorem refresh_not_atomic_after_variables:
  "Ping io = None \<Longrightarrow> GetVariables io = Inr sv \<Longrightarrow> SetDefaultMasterConn io = Some err \<Longrightarrow>
   refresh ext io server =
     (Some err,
      server\<lparr> BinlogPos := NewList ext (lookup sv ''GTID_BINLOG_POS''),
              Strict := lookup sv ''GTID_STRICT_MODE'',
              LogBin := lookup sv ''LOG_BIN'',
              ReadOnly := lookup sv ''READ_ONLY'',
              CurrentGtid := NewList ext (lookup sv ''GTID_CURRENT_POS''),
              SlaveGtid := NewList ext (lookup sv ''GTID_SLAVE_POS''),
              ServerID := ParseUint ext (lookup sv ''SERVER_ID'') \<rparr>)"
  by (simp add: refresh_def)

theorem refresh_not_atomic_after_variables_witness:
  "fst (refresh ext_ex ((refresh_vars ''0-1-100'')\<lparr>SetDefaultMasterConn := Some (Error ''denied'')\<rparr>)
          (srv_ex ''db2'' stateSlave)) = Some (Error ''denied'') \<and>
   SlaveGtid (snd (refresh ext_ex
          ((refresh_vars ''0-1-100'')\<lparr>SetDefaultMasterConn := Some (Error ''denied'')\<rparr>)
          (srv_ex ''db2'' stateSlave))) = [gtid_ex 100] \<and>
   SlaveGtid (srv_ex ''db2'' stateSlave) = [] \<and>
   ServerID (snd (refresh ext_ex
          ((refresh_vars ''0-1-100'')\<lparr>SetDefaultMasterConn := Some (Error ''denied'')\<rparr>)
          (srv_ex ''db2'' stateSlave))) = 2"
proof -
  let ?io = "(refresh_vars ''0-1-100'')\<lparr>SetDefaultMasterConn := Some (Error ''denied'')\<rparr>"
  have a: "Ping ?io = None" by (simp add: refresh_vars_def)
  have b: "GetVariables ?io = Inr [''GTID_BINLOG_POS'' \<mapsto> ''0-1-100'',
      ''GTID_CURRENT_POS'' \<mapsto> ''0-1-100'', ''GTID_SLAVE_POS'' \<mapsto> ''0-1-100'',
      ''SERVER_ID'' \<mapsto> ''2'', ''LOG_BIN'' \<mapsto> ''ON'', ''READ_ONLY'' \<mapsto> ''OFF'']"
    by (simp add: refresh_vars_def)
  have c: "SetDefaultMasterConn ?io = Some (Error ''denied'')" by simp
  show ?thesis
    unfolding refresh_not_atomic_after_variables [OF a b c]
    by (simp add: lookup_def ext_ex_def srv_ex_def)
qed

section \<open>Properties of check\<close>

lemma upd_simps [simp]:
  "heap (upd a f w) = (heap w)(a := f (heap w a))"
  "master (upd a f w) = master w"
  "slaves (upd a f w) = slaves w"
  "logs (upd a f w) = logs w"
  "effects (upd a f w) = effects w"
  by (simp_all add: upd_def)

lemma logw_simps [simp]:
  "heap (logw ln w) = heap w"
  "master (logw ln w) = master w"
  "slaves (logw ln w) = slaves w"
  "logs (logw ln w) = logs w @ [ln]"
  "effects (logw ln w) = effects w"
  by (simp_all add: logw_def)

lemma emit_simps [simp]:
  "heap (emit e w) = heap w"
  "master (emit e w) = master w"
  "slaves (emit e w) = slaves w"
  "logs (emit e w) = logs w"
  "effects (emit e w) = effects w @ [e]"
  by (simp_all add: emit_def)

lemma send_alert_simps [simp]:
  "heap (send_alert cfg io a w) = heap w"
  "master (send_alert cfg io a w) = master w"
  "slaves (send_alert cfg io a w) = slaves w"
  by (simp_all add: send_alert_def Let_def split: option.splits)

lemma send_alert_count [simp]:
  "count_list (logs (send_alert cfg io a w)) declaring_master_failed
     = count_list (logs w) declaring_master_failed"
  by (simp add: send_alert_def Let_def declaring_master_failed_def split: option.splits)

lemma state_distinct [simp]:
  "stateMaster \<noteq> stateFailed" "stateFailed \<noteq> stateMaster"
  "stateSuspect \<noteq> stateFailed" "stateFailed \<noteq> stateSuspect"
  "stateMaster \<noteq> stateSuspect" "stateSuspect \<noteq> stateMaster"
  "stateUnconn \<noteq> stateMaster" "stateMaster \<noteq> stateUnconn"
  "stateUnconn \<noteq> stateFailed" "stateFailed \<noteq> stateUnconn"
  "stateUnconn \<noteq> stateSuspect" "stateSuspect \<noteq> stateUnconn"
  "stateSlave \<noteq> stateMaster" "stateMaster \<noteq> stateSlave"
  "stateSlave \<noteq> stateFailed" "stateFailed \<noteq> stateSlave"
  "stateSlave \<noteq> stateSuspect" "stateSuspect \<noteq> stateSlave"
  "stateSlave \<noteq> stateUnconn" "stateUnconn \<noteq> stateSlave"
  by (simp_all add: state_defs)

text \<open>\<open>check\<close> after a failed and after a successful probe.\<close>

lemma check_failure:
  assumes "probe cfg io = Inr (Some err)"
  shows "check cfg io a w =
    (case state_on_failure cfg a err
            (if PrevState (heap w a) \<noteq> State (heap w a)
             then upd a (\<lambda>s. s\<lparr>PrevState := State s\<rparr>) w else w) of
       Inl p \<Rightarrow> Inl p | Inr w' \<Rightarrow> Inr (send_alert cfg io a w'))"
  using assms by (simp add: check_def)

lemma check_success:
  assumes "probe cfg io = Inr None"
  shows "check cfg io a w =
    on_success cfg io a
      (if PrevState (heap w a) \<noteq> State (heap w a)
       then upd a (\<lambda>s. s\<lparr>PrevState := State s\<rparr>) w else w)"
  using assms by (simp add: check_def)

text \<open>The first arm of the failure handling, taken by a master that is the server checked.\<close>

lemma failure_master_arm:
  assumes "master w = Some m" and "err \<noteq> ErrNoRows"
    and "State (heap w m) = stateMaster \<or> State (heap w m) = stateSuspect"
  shows "\<exists>w'. state_on_failure cfg m err w = Inr w' \<and>
     FailCount (heap w' m) = incr (FailCount (heap w m)) \<and>
     State (heap w' m) =
       (if incr (FailCount (heap w m)) \<ge> maxfail cfg then stateFailed else stateSuspect) \<and>
     count_list (logs w') declaring_master_failed
       = count_list (logs w) declaring_master_failed
         + (if incr (FailCount (heap w m)) = maxfail cfg then 1 else 0)"
proof -
  have arm: "err \<noteq> ErrNoRows \<and>
      (State (heap w m) = stateMaster \<or> State (heap w m) = stateSuspect)"
    using assms by simp
  show ?thesis
    unfolding state_on_failure_def
    by (simp only: arm if_True Let_def) (simp add: assms(1) declaring_master_failed_def)
qed

lemma failure_failed_state:
  assumes "State (heap w m) = stateFailed"
  shows "state_on_failure cfg m err w = Inr w"
  using assms by (simp add: state_on_failure_def)

lemma on_success_suspect:
  assumes "State (heap w a) = stateSuspect" and "PrevState (heap w a) = stateSuspect"
  shows "\<exists>w'. on_success cfg io a w = Inr w' \<and>
     FailCount (heap w' a) = FailCount (heap w a) \<and> effects w' = effects w \<and>
     State (heap w' a) =
       (if SlaveStatusErr io = Some ErrNoRows then stateUnconn else stateSuspect)"
  using assms by (simp add: on_success_def Let_def)

lemma failure_master_arm_master:
  assumes "master w = Some m" and "err \<noteq> ErrNoRows"
    and "State (heap w m) = stateMaster \<or> State (heap w m) = stateSuspect"
    and "state_on_failure cfg m err w = Inr w'"
  shows "master w' = Some m"
proof -
  have arm: "err \<noteq> ErrNoRows \<and>
      (State (heap w m) = stateMaster \<or> State (heap w m) = stateSuspect)"
    using assms by simp
  show ?thesis
    using assms(4) unfolding state_on_failure_def
    by (simp only: arm if_True Let_def) (auto simp add: assms(1) split: if_splits)
qed

text \<open>One failed probe of the master, whatever its state among Master, Suspect and Failed.\<close>

lemma check_master_failed_probe:
  assumes "master w = Some m"
    and "probe cfg io = Inr (Some err)" and "err \<noteq> ErrNoRows"
    and "State (heap w m) = stateMaster \<or> State (heap w m) = stateSuspect
           \<or> State (heap w m) = stateFailed"
  shows "\<exists>w'. check cfg io m w = Inr w' \<and> master w' = Some m \<and>
     (if State (heap w m) = stateFailed
      then FailCount (heap w' m) = FailCount (heap w m) \<and> State (heap w' m) = stateFailed \<and>
           count_list (logs w') declaring_master_failed
             = count_list (logs w) declaring_master_failed
      else FailCount (heap w' m) = incr (FailCount (heap w m)) \<and>
           State (heap w' m) =
             (if incr (FailCount (heap w m)) \<ge> maxfail cfg then stateFailed else stateSuspect) \<and>
           count_list (logs w') declaring_master_failed
             = count_list (logs w) declaring_master_failed
               + (if incr (FailCount (heap w m)) = maxfail cfg then 1 else 0))"
proof -
  define w1 where "w1 = (if PrevState (heap w m) \<noteq> State (heap w m)
             then upd m (\<lambda>s. s\<lparr>PrevState := State s\<rparr>) w else w)"
  have w1: "master w1 = Some m" "State (heap w1 m) = State (heap w m)"
    "FailCount (heap w1 m) = FailCount (heap w m)" "logs w1 = logs w"
    using assms(1) by (simp_all add: w1_def)
  have chk: "check cfg io m w =
    (case state_on_failure cfg m err w1 of
       Inl p \<Rightarrow> Inl p | Inr w' \<Rightarrow> Inr (send_alert cfg io m w'))"
    unfolding w1_def by (rule check_failure [OF assms(2)])
  show ?thesis
  proof (cases "State (heap w m) = stateFailed")
    case True
    then have "state_on_failure cfg m err w1 = Inr w1"
      using failure_failed_state [of w1 m] w1 by simp
    then show ?thesis using True chk w1 by simp
  next
    case False
    then have st: "State (heap w1 m) = stateMaster \<or> State (heap w1 m) = stateSuspect"
      using assms(4) w1 by simp
    from failure_master_arm [OF w1(1) assms(3) this, of cfg]
    obtain w' where w': "state_on_failure cfg m err w1 = Inr w'"
      "FailCount (heap w' m) = incr (FailCount (heap w1 m))"
      "State (heap w' m) =
         (if incr (FailCount (heap w1 m)) \<ge> maxfail cfg then stateFailed else stateSuspect)"
      "count_list (logs w') declaring_master_failed
         = count_list (logs w1) declaring_master_failed
           + (if incr (FailCount (heap w1 m)) = maxfail cfg then 1 else 0)"
      by blast
    have "master w' = Some m"
      by (rule failure_master_arm_master [OF w1(1) assms(3) st w'(1)])
    then show ?thesis using False chk w1 w' by simp
  qed
qed

lemma incr_small: "0 \<le> x \<Longrightarrow> x < m \<Longrightarrow> m < 2 ^ 63 \<Longrightarrow> incr x = x + 1"
  by (simp add: incr_def)

lemma master_failure_run_general:
  assumes "master w = Some m"
    and "\<forall>io\<in>set ios. \<exists>err. probe cfg io = Inr (Some err) \<and> err \<noteq> ErrNoRows"
    and "0 \<le> FailCount (heap w m)" and "maxfail cfg < 2 ^ 63"
    and "(State (heap w m) = stateMaster \<or> State (heap w m) = stateSuspect) \<and>
           FailCount (heap w m) < maxfail cfg
         \<or> State (heap w m) = stateFailed \<and> FailCount (heap w m) = maxfail cfg"
  shows "\<exists>w'. ticks cfg (map (Pair m) ios) w = Inr w' \<and>
     FailCount (heap w' m) = min (FailCount (heap w m) + int (length ios)) (maxfail cfg) \<and>
     State (heap w' m) =
       (if ios = [] then State (heap w m)
        else if FailCount (heap w m) + int (length ios) < maxfail cfg then stateSuspect
        else stateFailed) \<and>
     count_list (logs w') declaring_master_failed
       = count_list (logs w) declaring_master_failed
         + (if FailCount (heap w m) < maxfail cfg \<and>
               maxfail cfg \<le> FailCount (heap w m) + int (length ios) then 1 else 0)"
  using assms
proof (induction ios arbitrary: w)
  case Nil
  then show ?case by auto
next
  case (Cons io ios)
  from Cons.prems(2) obtain err where err: "probe cfg io = Inr (Some err)" "err \<noteq> ErrNoRows"
    by auto
  have st: "State (heap w m) = stateMaster \<or> State (heap w m) = stateSuspect
           \<or> State (heap w m) = stateFailed"
    using Cons.prems(5) by blast
  from check_master_failed_probe [OF Cons.prems(1) err st]
  obtain w1 where w1: "check cfg io m w = Inr w1" "master w1 = Some m"
    "if State (heap w m) = stateFailed
      then FailCount (heap w1 m) = FailCount (heap w m) \<and> State (heap w1 m) = stateFailed \<and>
           count_list (logs w1) declaring_master_failed
             = count_list (logs w) declaring_master_failed
      else FailCount (heap w1 m) = incr (FailCount (heap w m)) \<and>
           State (heap w1 m) =
             (if incr (FailCount (heap w m)) \<ge> maxfail cfg then stateFailed else stateSuspect) \<and>
           count_list (logs w1) declaring_master_failed
             = count_list (logs w) declaring_master_failed
               + (if incr (FailCount (heap w m)) = maxfail cfg then 1 else 0)"
    by blast
  have fails: "\<forall>io\<in>set ios. \<exists>err. probe cfg io = Inr (Some err) \<and> err \<noteq> ErrNoRows"
    using Cons.prems(2) by simp
  show ?case
  proof (cases "State (heap w m) = stateFailed")
    case True
    then have eq: "FailCount (heap w m) = maxfail cfg" using Cons.prems(5) by auto
    have a: "FailCount (heap w1 m) = maxfail cfg" "State (heap w1 m) = stateFailed"
      "count_list (logs w1) declaring_master_failed
         = count_list (logs w) declaring_master_failed"
      using w1(3) True eq by simp_all
    have "0 \<le> FailCount (heap w1 m)" using a(1) eq Cons.prems(3) by simp
    moreover have "(State (heap w1 m) = stateMaster \<or> State (heap w1 m) = stateSuspect) \<and>
           FailCount (heap w1 m) < maxfail cfg
         \<or> State (heap w1 m) = stateFailed \<and> FailCount (heap w1 m) = maxfail cfg"
      using a by simp
    ultimately obtain w' where "ticks cfg (map (Pair m) ios) w1 = Inr w'"
      "FailCount (heap w' m) = min (FailCount (heap w1 m) + int (length ios)) (maxfail cfg)"
      "State (heap w' m) =
       (if ios = [] then State (heap w1 m)
        else if FailCount (heap w1 m) + int (length ios) < maxfail cfg then stateSuspect
        else stateFailed)"
      "count_list (logs w') declaring_master_failed
       = count_list (logs w1) declaring_master_failed
         + (if FailCount (heap w1 m) < maxfail cfg \<and>
               maxfail cfg \<le> FailCount (heap w1 m) + int (length ios) then 1 else 0)"
      using Cons.IH [OF w1(2) fails _ Cons.prems(4)] by blast
    then show ?thesis using w1(1) a eq True by auto
  next
    case False
    then have lt: "FailCount (heap w m) < maxfail cfg" using Cons.prems(5) by auto
    have inc: "incr (FailCount (heap w m)) = FailCount (heap w m) + 1"
      by (rule incr_small [OF Cons.prems(3) lt Cons.prems(4)])
    have a: "FailCount (heap w1 m) = FailCount (heap w m) + 1"
      "State (heap w1 m) =
         (if FailCount (heap w m) + 1 \<ge> maxfail cfg then stateFailed else stateSuspect)"
      "count_list (logs w1) declaring_master_failed
         = count_list (logs w) declaring_master_failed
           + (if FailCount (heap w m) + 1 = maxfail cfg then 1 else 0)"
      using w1(3) False inc by simp_all
    have "0 \<le> FailCount (heap w1 m)" using a(1) Cons.prems(3) by simp
    moreover have "(State (heap w1 m) = stateMaster \<or> State (heap w1 m) = stateSuspect) \<and>
           FailCount (heap w1 m) < maxfail cfg
         \<or> State (heap w1 m) = stateFailed \<and> FailCount (heap w1 m) = maxfail cfg"
      using a lt by auto
    ultimately obtain w' where "ticks cfg (map (Pair m) ios) w1 = Inr w'"
      "FailCount (heap w' m) = min (FailCount (heap w1 m) + int (length ios)) (maxfail cfg)"
      "State (heap w' m) =
       (if ios = [] then State (heap w1 m)
        else if FailCount (heap w1 m) + int (length ios) < maxfail cfg then stateSuspect
        else stateFailed)"
      "count_list (logs w') declaring_master_failed
       = count_list (logs w1) declaring_master_failed
         + (if FailCount (heap w1 m) < maxfail cfg \<and>
               maxfail cfg \<le> FailCount (heap w1 m) + int (length ios) then 1 else 0)"
      using Cons.IH [OF w1(2) fails _ Cons.prems(4)] by blast
    then show ?thesis using w1(1) a lt by (auto simp add: min_def)
  qed
qed

text \<open>
  Over a run of consecutive failed probes of a healthy master the message is logged exactly
  once if the run reaches \<open>maxfail\<close> ticks, on tick number \<open>maxfail\<close>, and the count of
  failures stops there.
\<close>

lemma master_failure_declared_once:
  assumes "master w = Some m" and "State (heap w m) = stateMaster"
    and "FailCount (heap w m) = 0" and "0 < maxfail cfg" and "maxfail cfg < 2 ^ 63"
    and "\<forall>io\<in>set ios. \<exists>err. probe cfg io = Inr (Some err) \<and> err \<noteq> ErrNoRows"
  shows "\<exists>w'. ticks cfg (map (Pair m) ios) w = Inr w' \<and>
     FailCount (heap w' m) = min (int (length ios)) (maxfail cfg) \<and>
     State (heap w' m) =
       (if ios = [] then stateMaster
        else if int (length ios) < maxfail cfg then stateSuspect else stateFailed) \<and>
     count_list (logs w') declaring_master_failed
       = count_list (logs w) declaring_master_failed
         + (if maxfail cfg \<le> int (length ios) then 1 else 0)"
proof -
  have "0 \<le> FailCount (heap w m)" using assms(3) by simp
  moreover have "(State (heap w m) = stateMaster \<or> State (heap w m) = stateSuspect) \<and>
           FailCount (heap w m) < maxfail cfg
         \<or> State (heap w m) = stateFailed \<and> FailCount (heap w m) = maxfail cfg"
    using assms(2-4) by simp
  ultimately obtain w' where "ticks cfg (map (Pair m) ios) w = Inr w'"
    "FailCount (heap w' m) = min (FailCount (heap w m) + int (length ios)) (maxfail cfg)"
    "State (heap w' m) =
       (if ios = [] then State (heap w m)
        else if FailCount (heap w m) + int (length ios) < maxfail cfg then stateSuspect
        else stateFailed)"
    "count_list (logs w') declaring_master_failed
       = count_list (logs w) declaring_master_failed
         + (if FailCount (heap w m) < maxfail cfg \<and>
               maxfail cfg \<le> FailCount (heap w m) + int (length ios) then 1 else 0)"
    using master_failure_run_general [OF assms(1) assms(6) _ assms(5)] by blast
  then show ?thesis using assms(2-4) by simp
qed

lemma delete_heap [simp]: "heap (delete a w) = heap w"
  by (simp add: delete_def split: option.splits)

text \<open>
  The second arm of the failure handling, taken by a server that is neither \<open>Master\<close> nor
  \<open>Suspect\<close> nor \<open>Failed\<close>: below the threshold only the counter changes.
\<close>

lemma failure_slave_arm:
  assumes "State (heap w a) \<noteq> stateMaster" and "State (heap w a) \<noteq> stateSuspect"
    and "State (heap w a) \<noteq> stateFailed"
  shows "\<exists>w'. state_on_failure cfg a err w = Inr w' \<and>
     FailCount (heap w' a) = incr (FailCount (heap w a)) \<and>
     State (heap w' a) =
       (if incr (FailCount (heap w a)) = maxfail cfg then stateFailed
        else if maxfail cfg < incr (FailCount (heap w a)) then stateSuspect
        else State (heap w a)) \<and>
     (incr (FailCount (heap w a)) < maxfail cfg \<longrightarrow> slaves w' = slaves w)"
proof -
  have c1: "(err \<noteq> ErrNoRows \<and>
      (State (heap w a) = stateMaster \<or> State (heap w a) = stateSuspect)) = False"
    using assms by simp
  have c2: "(State (heap w a) \<noteq> stateMaster \<and> State (heap w a) \<noteq> stateFailed) = True"
    using assms by simp
  show ?thesis
    unfolding state_on_failure_def
    by (simp only: c1 c2 if_True if_False Let_def) simp
qed

text \<open>
  The status code of the agent's answer is part of the error when it is not 200.
\<close>

lemma probe_agent_status:
  "checktype cfg = ''agent'' \<Longrightarrow> fst (HttpGet io) = Some code \<Longrightarrow> code \<noteq> 200 \<Longrightarrow>
   probe cfg io = Inr (Some (Errorf ''HTTP Response Code Error: %d'' [code]))"
  by (simp add: probe_def)

text \<open>
  C4. The agent probe panics on a network-layer error: \<open>http.Get\<close> then returns a nil
  response, and \<open>check\<close> reads \<open>resp.StatusCode\<close> before it looks at the error. Here
  \<open>db2\<close> is checked in agent mode while its agent refuses the connection.
\<close>

theorem check_agent_network_error_panics:
  "check (cfg_ex\<lparr>checktype := ''agent''\<rparr>) io_down 1 w_ex = Inl NilPointerDereference"
  by (simp add: check_def probe_def cfg_ex_def io_down_def)

text \<open>
  C2. A slave below the threshold is not made \<open>Suspect\<close>: with \<open>maxfail = 3\<close>, the first
  failed probe of the slave \<open>db2\<close> raises its \<open>FailCount\<close> to 1 and leaves its state
  \<open>Slave\<close> (the assignment of \<open>Suspect\<close> is the \<open>else\<close> of \<open>FailCount == maxfail\<close>,
  inside \<open>FailCount >= maxfail\<close>).
\<close>

theorem check_slave_below_threshold_stays_slave:
  "state_after 1 (check cfg_ex io_down 1 w_ex) = Some stateSlave \<and>
   failcount_after 1 (check cfg_ex io_down 1 w_ex) = Some 1 \<and>
   slaves_after (check cfg_ex io_down 1 w_ex) = Some [1, 2, 3]"
  by code_simp

text \<open>
  C8. A failed server can stay in the slaves list. \<open>db3\<close> loses its slave status (it
  becomes \<open>Unconnected\<close> and stays in the list), gets it back (it becomes \<open>Slave\<close> and is
  appended a second time), then fails three probes: it is declared \<open>Failed\<close> and
  \<open>delete\<close> removes one of its two entries only.
\<close>

theorem failed_server_left_in_slaves:
  "state_after 2 (ticks cfg_ex [(2, io_up (Some ErrNoRows)), (2, io_up None),
       (2, io_down), (2, io_down), (2, io_down)] w_ex) = Some stateFailed \<and>
   slaves_after (ticks cfg_ex [(2, io_up (Some ErrNoRows)), (2, io_up None),
       (2, io_down), (2, io_down), (2, io_down)] w_ex) = Some [1, 2, 3]"
  by code_simp

text \<open>
  C3, as stated, fails once the master is \<open>Failed\<close>: with \<open>maxfail = 3\<close>, the fourth
  failed probe of the master \<open>db1\<close> leaves its \<open>FailCount\<close> at 3.
\<close>

theorem failed_master_not_counted:
  "failcount_after 0 (ticks cfg_ex [(0, io_down), (0, io_down), (0, io_down)] w_ex) = Some 3 \<and>
   state_after 0 (ticks cfg_ex [(0, io_down), (0, io_down), (0, io_down)] w_ex)
     = Some stateFailed \<and>
   failcount_after 0 (ticks cfg_ex [(0, io_down), (0, io_down), (0, io_down), (0, io_down)] w_ex)
     = Some 3"
  by code_simp

text \<open>
  C3 (amended). When the probe of the current master fails with an error other than
  \<open>sql.ErrNoRows\<close> while its state is \<open>Master\<close> or \<open>Suspect\<close>: its \<open>FailCount\<close> is
  incremented; its state becomes \<open>Failed\<close> if the incremented \<open>FailCount\<close> is at least
  \<open>maxfail\<close> and \<open>Suspect\<close> otherwise; and "Declaring master as failed" is logged on
  that tick exactly when the incremented \<open>FailCount\<close> equals \<open>maxfail\<close>. When its state
  is already \<open>Failed\<close>, the tick leaves \<open>FailCount\<close> and the state as they are and does
  not log the message. Hence, over a run of consecutive failed probes of a master that
  starts in state \<open>Master\<close> with \<open>FailCount = 0\<close> (and \<open>0 < maxfail\<close>), the message is
  logged exactly once if the run has at least \<open>maxfail\<close> ticks (on tick \<open>maxfail\<close>, where
  the counting stops) and not at all if it is shorter.
\<close>

theorem master_probe_failure:
  assumes "master w = Some m"
  shows
   "(probe cfg io = Inr (Some err) \<and> err \<noteq> ErrNoRows \<and>
     (State (heap w m) = stateMaster \<or> State (heap w m) = stateSuspect
        \<or> State (heap w m) = stateFailed) \<longrightarrow>
     (\<exists>w'. check cfg io m w = Inr w' \<and>
       (if State (heap w m) = stateFailed
        then FailCount (heap w' m) = FailCount (heap w m) \<and> State (heap w' m) = stateFailed \<and>
             count_list (logs w') declaring_master_failed
               = count_list (logs w) declaring_master_failed
        else FailCount (heap w' m) = incr (FailCount (heap w m)) \<and>
             State (heap w' m) =
               (if FailCount (heap w' m) \<ge> maxfail cfg then stateFailed else stateSuspect) \<and>
             count_list (logs w') declaring_master_failed
               = count_list (logs w) declaring_master_failed
                 + (if FailCount (heap w' m) = maxfail cfg then 1 else 0)))) \<and>
    (State (heap w m) = stateMaster \<and> FailCount (heap w m) = 0 \<and>
     0 < maxfail cfg \<and> maxfail cfg < 2 ^ 63 \<and>
     (\<forall>io\<in>set ios. \<exists>err. probe cfg io = Inr (Some err) \<and> err \<noteq> ErrNoRows) \<longrightarrow>
     (\<exists>w'. ticks cfg (map (Pair m) ios) w = Inr w' \<and>
       FailCount (heap w' m) = min (int (length ios)) (maxfail cfg) \<and>
       State (heap w' m) =
         (if ios = [] then stateMaster
          else if int (length ios) < maxfail cfg then stateSuspect else stateFailed) \<and>
       count_list (logs w') declaring_master_failed
         = count_list (logs w) declaring_master_failed
           + (if maxfail cfg \<le> int (length ios) then 1 else 0)))"
proof (intro conjI impI)
  assume a: "probe cfg io = Inr (Some err) \<and> err \<noteq> ErrNoRows \<and>
     (State (heap w m) = stateMaster \<or> State (heap w m) = stateSuspect
        \<or> State (heap w m) = stateFailed)"
  then have p: "probe cfg io = Inr (Some err)" and e: "err \<noteq> ErrNoRows"
    and st: "State (heap w m) = stateMaster \<or> State (heap w m) = stateSuspect
        \<or> State (heap w m) = stateFailed"
    by simp_all
  from check_master_failed_probe [OF assms p e st]
  obtain w' where w': "check cfg io m w = Inr w'"
    "if State (heap w m) = stateFailed
      then FailCount (heap w' m) = FailCount (heap w m) \<and> State (heap w' m) = stateFailed \<and>
           count_list (logs w') declaring_master_failed
             = count_list (logs w) declaring_master_failed
      else FailCount (heap w' m) = incr (FailCount (heap w m)) \<and>
           State (heap w' m) =
             (if incr (FailCount (heap w m)) \<ge> maxfail cfg then stateFailed else stateSuspect) \<and>
           count_list (logs w') declaring_master_failed
             = count_list (logs w) declaring_master_failed
               + (if incr (FailCount (heap w m)) = maxfail cfg then 1 else 0)"
    by blast
  show "\<exists>w'. check cfg io m w = Inr w' \<and>
       (if State (heap w m) = stateFailed
        then FailCount (heap w' m) = FailCount (heap w m) \<and> State (heap w' m) = stateFailed \<and>
             count_list (logs w') declaring_master_failed
               = count_list (logs w) declaring_master_failed
        else FailCount (heap w' m) = incr (FailCount (heap w m)) \<and>
             State (heap w' m) =
               (if FailCount (heap w' m) \<ge> maxfail cfg then stateFailed else stateSuspect) \<and>
             count_list (logs w') declaring_master_failed
               = count_list (logs w) declaring_master_failed
                 + (if FailCount (heap w' m) = maxfail cfg then 1 else 0))"
  proof (cases "State (heap w m) = stateFailed")
    case True
    then show ?thesis using w' by simp
  next
    case False
    then show ?thesis using w' by simp
  qed
next
  assume b: "State (heap w m) = stateMaster \<and> FailCount (heap w m) = 0 \<and>
     0 < maxfail cfg \<and> maxfail cfg < 2 ^ 63 \<and>
     (\<forall>io\<in>set ios. \<exists>err. probe cfg io = Inr (Some err) \<and> err \<noteq> ErrNoRows)"
  then have "State (heap w m) = stateMaster" "FailCount (heap w m) = 0"
    "0 < maxfail cfg" "maxfail cfg < 2 ^ 63"
    "\<forall>io\<in>set ios. \<exists>err. probe cfg io = Inr (Some err) \<and> err \<noteq> ErrNoRows"
    by simp_all
  then show "\<exists>w'. ticks cfg (map (Pair m) ios) w = Inr w' \<and>
       FailCount (heap w' m) = min (int (length ios)) (maxfail cfg) \<and>
       State (heap w' m) =
         (if ios = [] then stateMaster
          else if int (length ios) < maxfail cfg then stateSuspect else stateFailed) \<and>
       count_list (logs w') declaring_master_failed
         = count_list (logs w) declaring_master_failed
           + (if maxfail cfg \<le> int (length ios) then 1 else 0)"
    by (rule master_failure_declared_once [OF assms])
qed

theorem master_probe_failure_witness:
  "master w_ex = Some 0 \<and>
   probe cfg_ex io_down = Inr (Some (Error ''connection refused'')) \<and>
   State (heap w_ex 0) = stateMaster \<and> FailCount (heap w_ex 0) = 0 \<and> maxfail cfg_ex = 3 \<and>
   state_after 0 (check cfg_ex io_down 0 w_ex) = Some stateSuspect \<and>
   failcount_after 0 (check cfg_ex io_down 0 w_ex) = Some 1 \<and>
   state_after 0 (ticks cfg_ex (map (Pair 0) [io_down, io_down, io_down, io_down]) w_ex)
     = Some stateFailed \<and>
   failcount_after 0 (ticks cfg_ex (map (Pair 0) [io_down, io_down, io_down, io_down]) w_ex)
     = Some 3 \<and>
   declared_after (ticks cfg_ex (map (Pair 0) [io_down, io_down, io_down, io_down]) w_ex)
     = Some 1"
proof -
  have a: "master w_ex = Some 0" by (simp add: w_ex_def)
  have b: "probe cfg_ex io_down = Inr (Some (Error ''connection refused''))"
    by (simp add: probe_def cfg_ex_def io_down_def)
  have c: "Error ''connection refused'' \<noteq> ErrNoRows" by simp
  have d: "State (heap w_ex 0) = stateMaster" by (simp add: w_ex_def srv_ex_def)
  have e: "FailCount (heap w_ex 0) = 0" by (simp add: w_ex_def srv_ex_def)
  have f: "maxfail cfg_ex = 3" by (simp add: cfg_ex_def)
  have g: "logs w_ex = []" by (simp add: w_ex_def)
  let ?ios = "[io_down, io_down, io_down, io_down]"
  have h: "\<forall>io\<in>set ?ios. \<exists>err. probe cfg_ex io = Inr (Some err) \<and> err \<noteq> ErrNoRows"
    using b by simp
  note both = master_probe_failure [OF a, of cfg_ex io_down "Error ''connection refused''" ?ios]
  from both b c d
  obtain w1 where w1: "check cfg_ex io_down 0 w_ex = Inr w1"
    "FailCount (heap w1 0) = incr (FailCount (heap w_ex 0))"
    "State (heap w1 0) =
       (if FailCount (heap w1 0) \<ge> maxfail cfg_ex then stateFailed else stateSuspect)"
    by auto
  from both d e f h
  obtain w4 where w4: "ticks cfg_ex (map (Pair 0) ?ios) w_ex = Inr w4"
    "FailCount (heap w4 0) = min (int (length ?ios)) (maxfail cfg_ex)"
    "State (heap w4 0) =
         (if ?ios = [] then stateMaster
          else if int (length ?ios) < maxfail cfg_ex then stateSuspect else stateFailed)"
    "count_list (logs w4) declaring_master_failed
         = count_list (logs w_ex) declaring_master_failed
           + (if maxfail cfg_ex \<le> int (length ?ios) then 1 else 0)"
    by auto
  have first: "state_after 0 (check cfg_ex io_down 0 w_ex) = Some stateSuspect"
    "failcount_after 0 (check cfg_ex io_down 0 w_ex) = Some 1"
    using w1 e f by (simp_all add: state_after_def failcount_after_def incr_def)
  have run: "state_after 0 (ticks cfg_ex (map (Pair 0) ?ios) w_ex) = Some stateFailed"
    "failcount_after 0 (ticks cfg_ex (map (Pair 0) ?ios) w_ex) = Some 3"
    "declared_after (ticks cfg_ex (map (Pair 0) ?ios) w_ex) = Some 1"
    using w4 f g by (simp_all add: state_after_def failcount_after_def declared_after_def)
  show ?thesis using a b d e f first run by simp
qed

text \<open>
  C5, as stated, fails: after the failed probe the master \<open>db1\<close> is \<open>Suspect\<close> with
  \<open>FailCount = 1\<close> (and, a recipient being configured, an alert of type \<open>Suspect\<close> has
  been sent); after the successful probe that follows it is \<open>Unconnected\<close> when it has
  no slave status and still \<open>Suspect\<close> otherwise, never \<open>Master\<close>.
\<close>

theorem master_blip_not_master_again:
  "state_after 0 (ticks cfg_ex [(0, io_down)] w_ex) = Some stateSuspect \<and>
   failcount_after 0 (ticks cfg_ex [(0, io_down)] w_ex) = Some 1 \<and>
   effects_after (ticks cfg_ex [(0, io_down)] w_ex)
     = Some [EmailAlert \<lparr> From = ''repmgr@x'', To = ''ops@x'', Type = ''Suspect'',
                Origin = ''db1:3306'', Destination = ''localhost:25'' \<rparr>] \<and>
   state_after 0 (ticks cfg_ex [(0, io_down), (0, io_up (Some ErrNoRows))] w_ex)
     = Some ''Unconnected'' \<and>
   state_after 0 (ticks cfg_ex [(0, io_down), (0, io_up None)] w_ex) = Some ''Suspect''"
  by code_simp

text \<open>
  C5 (amended). With \<open>maxfail = 3\<close>, if the probe of the master (in state \<open>Master\<close>,
  \<open>FailCount = 0\<close>) fails on one tick, with an error other than \<open>sql.ErrNoRows\<close>,
  leaving it \<open>Suspect\<close> with \<open>FailCount = 1\<close>, and succeeds on the next tick, then
  after that next tick its \<open>FailCount\<close> is still 1 and the tick has sent no alert (nor
  any other command), but its state is not \<open>Master\<close>: it is \<open>Unconnected\<close> when the
  slave-status query answers \<open>sql.ErrNoRows\<close> and still \<open>Suspect\<close> otherwise.
\<close>

theorem master_blip:
  assumes "master w = Some m" and "State (heap w m) = stateMaster"
    and "FailCount (heap w m) = 0" and "maxfail cfg = 3"
    and "probe cfg io1 = Inr (Some err)" and "err \<noteq> ErrNoRows"
    and "probe cfg io2 = Inr None"
  shows "\<exists>w1 w2. check cfg io1 m w = Inr w1 \<and>
     State (heap w1 m) = stateSuspect \<and> FailCount (heap w1 m) = 1 \<and>
     check cfg io2 m w1 = Inr w2 \<and>
     FailCount (heap w2 m) = 1 \<and> effects w2 = effects w1 \<and>
     State (heap w2 m) =
       (if SlaveStatusErr io2 = Some ErrNoRows then stateUnconn else stateSuspect)"
proof -
  define w0 where "w0 = (if PrevState (heap w m) \<noteq> State (heap w m)
             then upd m (\<lambda>s. s\<lparr>PrevState := State s\<rparr>) w else w)"
  have w0: "master w0 = Some m" "State (heap w0 m) = stateMaster" "FailCount (heap w0 m) = 0"
    using assms(1-3) by (simp_all add: w0_def)
  have "State (heap w0 m) = stateMaster \<or> State (heap w0 m) = stateSuspect"
    using w0 by simp
  from failure_master_arm [OF w0(1) assms(6) this, of cfg]
  obtain wf where wf: "state_on_failure cfg m err w0 = Inr wf"
    "FailCount (heap wf m) = incr (FailCount (heap w0 m))"
    "State (heap wf m) =
       (if incr (FailCount (heap w0 m)) \<ge> maxfail cfg then stateFailed else stateSuspect)"
    by blast
  define w1 where "w1 = send_alert cfg io1 m wf"
  have c1: "check cfg io1 m w = Inr w1"
    using check_failure [OF assms(5), of m w] wf(1) by (simp add: w0_def w1_def)
  have s1: "State (heap w1 m) = stateSuspect" "FailCount (heap w1 m) = 1"
    using wf(2,3) w0(3) assms(4) by (simp_all add: w1_def incr_def)
  define w1' where "w1' = (if PrevState (heap w1 m) \<noteq> State (heap w1 m)
             then upd m (\<lambda>s. s\<lparr>PrevState := State s\<rparr>) w1 else w1)"
  have w1': "State (heap w1' m) = stateSuspect" "PrevState (heap w1' m) = stateSuspect"
    "FailCount (heap w1' m) = 1" "effects w1' = effects w1"
    using s1 by (auto simp add: w1'_def)
  from on_success_suspect [OF w1'(1,2), of cfg io2]
  obtain w2 where w2: "on_success cfg io2 m w1' = Inr w2"
    "FailCount (heap w2 m) = FailCount (heap w1' m)" "effects w2 = effects w1'"
    "State (heap w2 m) =
       (if SlaveStatusErr io2 = Some ErrNoRows then stateUnconn else stateSuspect)"
    by blast
  have c2: "check cfg io2 m w1 = Inr w2"
    using check_success [OF assms(7), of m w1] w2(1) by (simp add: w1'_def)
  show ?thesis using c1 s1 c2 w2 w1' by simp
qed

theorem master_blip_witness:
  "master w_ex = Some 0 \<and> State (heap w_ex 0) = stateMaster \<and> FailCount (heap w_ex 0) = 0 \<and>
   maxfail cfg_ex = 3 \<and>
   probe cfg_ex io_down = Inr (Some (Error ''connection refused'')) \<and>
   probe cfg_ex (io_up (Some ErrNoRows)) = Inr None \<and>
   state_after 0 (ticks cfg_ex [(0, io_down), (0, io_up (Some ErrNoRows))] w_ex)
     = Some stateUnconn \<and>
   failcount_after 0 (ticks cfg_ex [(0, io_down), (0, io_up (Some ErrNoRows))] w_ex) = Some 1"
proof -
  have a: "master w_ex = Some 0" by (simp add: w_ex_def)
  have b: "State (heap w_ex 0) = stateMaster" by (simp add: w_ex_def srv_ex_def)
  have c: "FailCount (heap w_ex 0) = 0" by (simp add: w_ex_def srv_ex_def)
  have d: "maxfail cfg_ex = 3" by (simp add: cfg_ex_def)
  have e: "probe cfg_ex io_down = Inr (Some (Error ''connection refused''))"
    by (simp add: probe_def cfg_ex_def io_down_def)
  have f: "Error ''connection refused'' \<noteq> ErrNoRows" by simp
  have g: "probe cfg_ex (io_up (Some ErrNoRows)) = Inr None"
    by (simp add: probe_def cfg_ex_def io_up_def)
  have h: "SlaveStatusErr (io_up (Some ErrNoRows)) = Some ErrNoRows"
    by (simp add: io_up_def)
  from master_blip [OF a b c d e f g]
  obtain w1 w2 where "check cfg_ex io_down 0 w_ex = Inr w1"
    "check cfg_ex (io_up (Some ErrNoRows)) 0 w1 = Inr w2"
    "FailCount (heap w2 0) = 1" "State (heap w2 0) = stateUnconn"
    using h by auto
  then show ?thesis using a b c d e g
    by (simp add: state_after_def failcount_after_def)
qed

section \<open>Properties of electCandidate\<close>

lemma length_spec_scores [simp]: "length (spec_scores ext cfg io server l i h) = length l"
  by (induction l arbitrary: i h) simp_all

lemma refreshed_URL [simp]: "URL (refreshed ext cfg io sl h a) = URL (h a)"
  by (simp add: refreshed_def refresh_URL)

lemma refreshed_State [simp]: "State (refreshed ext cfg io sl h a) = State (h a)"
  by (simp add: refreshed_def refresh_State)

lemma eligible_fst_cong:
  "State s = State s' \<Longrightarrow> State c = State c' \<Longrightarrow>
   fst (eligible cfg io s c i) = fst (eligible cfg io s' c' j)"
  by (simp add: eligible_def Let_def)

lemma candidate_score_None_iff:
  "(candidate_score ext cfg io server sl i h \<noteq> None) =
   (\<not> contains (ignoreList cfg) (URL (h sl)) \<and> fst (eligible cfg io (h server) (h sl) i))"
  using eligible_fst_cong [of "refreshed ext cfg io sl h server" "h server"
      "refreshed ext cfg io sl h sl" "h sl" cfg io i i]
  by (simp add: candidate_score_def)

lemma spec_scores_nth_None_iff:
  "k < length l \<Longrightarrow>
   (spec_scores ext cfg io server l i h ! k \<noteq> None) =
   (\<not> contains (ignoreList cfg) (URL (h (l ! k))) \<and>
    fst (eligible cfg (io (i + k)) (h server) (h (l ! k)) (i + k)))"
proof (induction l arbitrary: i h k)
  case Nil
  then show ?case by simp
next
  case (Cons sl l)
  show ?case
  proof (cases k)
    case 0
    then show ?thesis using candidate_score_None_iff [of ext cfg "io i" server sl i h] by simp
  next
    case (Suc k')
    then have "k' < length l" using Cons.prems by simp
    from Cons.IH [OF this, of "Suc i" "refreshed ext cfg (io i) sl h"]
    show ?thesis
      using Suc
        eligible_fst_cong [of "refreshed ext cfg (io i) sl h server" "h server"
          "refreshed ext cfg (io i) sl h (l ! k')" "h (l ! k')" cfg "io (Suc (i + k'))"
          "Suc (i + k')" "Suc (i + k')"]
      by simp
  qed
qed

lemma foldl_plus_sum_list: "foldl (+) (a :: 64 word) xs = a + sum_list xs"
  by (induction xs arbitrary: a) (simp_all add: add.assoc)

lemma elect_step_skip:
  assumes "candidate_score ext cfg io server sl i (heap w) = None"
  shows "\<exists>w'. elect_step ext cfg io server sl i (w, v) = Inr (w', v) \<and>
               heap w' = refreshed ext cfg io sl (heap w)"
  using assms
  by (simp add: elect_step_def candidate_score_def refreshed_def Let_def split: if_splits)

lemma elect_step_rig:
  assumes "candidate_score ext cfg io server sl i (heap w) = Some s"
    and "URL (heap w sl) = prefMaster cfg"
  shows "\<exists>w'. elect_step ext cfg io server sl i (w, v) = Inl (i, w')"
  using assms
  by (simp add: elect_step_def candidate_score_def refreshed_def Let_def refresh_URL
      split: if_splits)

lemma elect_step_score:
  assumes "candidate_score ext cfg io server sl i (heap w) = Some s"
    and "URL (heap w sl) \<noteq> prefMaster cfg"
    and "i < length (seqList v)" and "seqList v ! i = 0"
  shows "\<exists>w' v'. elect_step ext cfg io server sl i (w, v) = Inr (w', v') \<and>
               heap w' = refreshed ext cfg io sl (heap w) \<and>
               seqList v' = (seqList v)[i := s] \<and>
               max_seq v' = (if max_seq v < s then s else max_seq v) \<and>
               hiseq v' = (if max_seq v < s then i else hiseq v)"
  using assms
  by (simp add: elect_step_def candidate_score_def refreshed_def Let_def refresh_URL
      foldl_plus_sum_list split: if_splits)

lemma tracks_None: "tracks ps v \<Longrightarrow> tracks (ps @ [None]) v"
  by (auto simp add: tracks_def nth_append less_Suc_eq)

lemma tracks_Some:
  assumes "tracks ps v"
    and "max_seq v' = (if max_seq v < s then s else max_seq v)"
    and "hiseq v' = (if max_seq v < s then length ps else hiseq v)"
  shows "tracks (ps @ [Some s]) v'"
proof (cases "max_seq v < s")
  case True
  then show ?thesis using assms
    by (auto simp add: tracks_def nth_append less_Suc_eq intro: le_less_trans)
next
  case False
  then show ?thesis using assms
    by (auto simp add: tracks_def nth_append less_Suc_eq)
qed

lemma rigged_0:
  "rigged ext cfg io server (sl # l) i h 0 =
   (candidate_score ext cfg (io i) server sl i h \<noteq> None \<and> URL (h sl) = prefMaster cfg)"
  by (simp add: rigged_def)

lemma rigged_Suc:
  "rigged ext cfg io server (sl # l) i h (Suc k) =
   rigged ext cfg io server l (Suc i) (refreshed ext cfg (io i) sl h) k"
  by (simp add: rigged_def)

lemma elect_loop_spec:
  assumes "tracks ps v" and "length ps = i"
    and "\<forall>k. i \<le> k \<and> k < i + length l \<longrightarrow> k < length (seqList v) \<and> seqList v ! k = 0"
  shows "case elect_loop ext cfg io server l i (w, v) of
           Inl r \<Rightarrow> (\<exists>k<length l. fst r = i + k \<and> rigged ext cfg io server l i (heap w) k \<and>
                        (\<forall>j<k. \<not> rigged ext cfg io server l i (heap w) j))
         | Inr st \<Rightarrow> tracks (ps @ spec_scores ext cfg io server l i (heap w)) (snd st) \<and>
                       (\<forall>k<length l. \<not> rigged ext cfg io server l i (heap w) k)"
  using assms
proof (induction l arbitrary: i w v ps)
  case Nil
  then show ?case by simp
next
  case (Cons sl l)
  let ?x = "candidate_score ext cfg (io i) server sl i (heap w)"
  let ?h = "refreshed ext cfg (io i) sl (heap w)"
  have zero: "i < length (seqList v)" "seqList v ! i = 0"
    using Cons.prems(3) by simp_all
  have zeros: "\<forall>k. Suc i \<le> k \<and> k < Suc i + length l \<longrightarrow>
                 k < length (seqList v) \<and> seqList v ! k = 0"
    using Cons.prems(3) by simp
  show ?case
  proof (cases ?x)
    case None
    from elect_step_skip [OF None, of v]
    obtain w' where w': "elect_step ext cfg (io i) server sl i (w, v) = Inr (w', v)"
      "heap w' = ?h" by blast
    have len: "length (ps @ [None]) = Suc i" using Cons.prems(2) by simp
    from Cons.IH [OF tracks_None [OF Cons.prems(1)] len zeros, of w']
    show ?thesis
      using w' None
      by (auto simp add: rigged_0 rigged_Suc All_less_Suc2 split: sum.splits)
  next
    case (Some s)
    show ?thesis
    proof (cases "URL (heap w sl) = prefMaster cfg")
      case True
      from elect_step_rig [OF Some True, of v]
      obtain w' where "elect_step ext cfg (io i) server sl i (w, v) = Inl (i, w')" by blast
      then show ?thesis using Some True by (simp add: rigged_0)
    next
      case False
      from elect_step_score [OF Some False zero]
      obtain w' v' where s: "elect_step ext cfg (io i) server sl i (w, v) = Inr (w', v')"
        "heap w' = ?h" "seqList v' = (seqList v)[i := s]"
        "max_seq v' = (if max_seq v < s then s else max_seq v)"
        "hiseq v' = (if max_seq v < s then i else hiseq v)" by blast
      have tr: "tracks (ps @ [Some s]) v'"
        using tracks_Some [OF Cons.prems(1), of v' s] s(4,5) Cons.prems(2) by simp
      have len: "length (ps @ [Some s]) = Suc i" using Cons.prems(2) by simp
      have zeros': "\<forall>k. Suc i \<le> k \<and> k < Suc i + length l \<longrightarrow>
                 k < length (seqList v') \<and> seqList v' ! k = 0"
        using zeros s(3) by simp
      from Cons.IH [OF tr len zeros', of w']
      show ?thesis
        using s(1,2) Some False
        by (auto simp add: rigged_0 rigged_Suc All_less_Suc2 split: sum.splits)
    qed
  qed
qed

lemma URL_w_ex: "URL (heap w_ex a) \<noteq> []"
  by (simp add: w_ex_def srv_ex_def)

lemma contains_set: "contains xs u = (u \<in> set xs)"
  by (induction xs) auto

lemma rigged_examined:
  "k < length l \<Longrightarrow>
   rigged ext cfg io server l 0 h k =
   (examined cfg io server l h k \<and> URL (h (l ! k)) = prefMaster cfg)"
  using spec_scores_nth_None_iff [of k l ext cfg io server 0 h]
  by (simp add: rigged_def examined_def)

lemma scored_examined:
  "k < length l \<Longrightarrow>
   (spec_scores ext cfg io server l 0 h ! k \<noteq> None) = examined cfg io server l h k"
  using spec_scores_nth_None_iff [of k l ext cfg io server 0 h]
  by (simp add: examined_def)

lemma examined_sound:
  assumes "examined cfg io server l h k"
  shows "URL (h (l ! k)) \<notin> set (ignoreList cfg) \<and>
     (State (h server) \<noteq> stateFailed \<longrightarrow>
        Valid (Seconds_Behind_Master (ElectSlaveStatus (io k))) \<and>
        Int64 (Seconds_Behind_Master (ElectSlaveStatus (io k))) \<le> maxDelay cfg)"
  using assms
  by (auto simp add: examined_def eligible_def contains_set Let_def split: if_splits)

text \<open>The loop as \<open>electCandidate\<close> starts it.\<close>

lemma electCandidate_loop:
  "electCandidate ext cfg io server l w =
     (case elect_loop ext cfg io server l 0
             ((if verbose cfg
               then logw (Logprintf ''DEBUG: Processing %d candidates'' [ArgInt (int (length l))]) w
               else w),
              \<lparr> seqList = replicate (length l) 0, hiseq = 0, max_seq = 0 \<rparr>) of
        Inl r \<Rightarrow> (int (fst r), snd r)
      | Inr st \<Rightarrow>
         if max_seq (snd st) > 0 then (int (hiseq (snd st)), fst st)
         else (- 1, logw (Logprint [ArgStr ''ERROR: No suitable candidates found.'']) (fst st)))"
  by (simp add: electCandidate_def Let_def)

lemma elect_loop_start:
  assumes "heap w0 = heap w"
  shows "case elect_loop ext cfg io server l 0
               (w0, \<lparr> seqList = replicate (length l) 0, hiseq = 0, max_seq = 0 \<rparr>) of
           Inl r \<Rightarrow> (\<exists>k<length l. fst r = k \<and> rigged ext cfg io server l 0 (heap w) k \<and>
                        (\<forall>j<k. \<not> rigged ext cfg io server l 0 (heap w) j))
         | Inr st \<Rightarrow> tracks (spec_scores ext cfg io server l 0 (heap w)) (snd st) \<and>
                       (\<forall>k<length l. \<not> rigged ext cfg io server l 0 (heap w) k)"
proof -
  let ?v = "\<lparr> seqList = replicate (length l) 0, hiseq = 0, max_seq = 0 \<rparr>"
  have t: "tracks [] ?v" by (simp add: tracks_def)
  have z: "\<forall>k. 0 \<le> k \<and> k < 0 + length l \<longrightarrow> k < length (seqList ?v) \<and> seqList ?v ! k = 0"
    by simp
  from elect_loop_spec [OF t _ z, of ext cfg io server w0] assms
  show ?thesis by (auto split: sum.splits)
qed

text \<open>
  C7. When a candidate that is examined (its URL is not in the ignore list and no
  eligibility check skips it) has the URL of the configured preferred master, and it is the
  first such candidate of the list, \<open>electCandidate\<close> returns its index, whatever the
  sequence numbers of any candidate are.
\<close>

theorem elect_preferred_master:
  assumes "k < length l" and "examined cfg io server l (heap w) k"
    and "URL (heap w (l ! k)) = prefMaster cfg"
    and "\<forall>j<k. \<not> (examined cfg io server l (heap w) j \<and> URL (heap w (l ! j)) = prefMaster cfg)"
  shows "fst (electCandidate ext cfg io server l w) = int k"
proof -
  define w0 where "w0 = (if verbose cfg
      then logw (Logprintf ''DEBUG: Processing %d candidates'' [ArgInt (int (length l))]) w
      else w)"
  have w0: "heap w0 = heap w"
    "electCandidate ext cfg io server l w =
       (case elect_loop ext cfg io server l 0
               (w0, \<lparr> seqList = replicate (length l) 0, hiseq = 0, max_seq = 0 \<rparr>) of
          Inl r \<Rightarrow> (int (fst r), snd r)
        | Inr st \<Rightarrow>
           if max_seq (snd st) > 0 then (int (hiseq (snd st)), fst st)
           else (- 1, logw (Logprint [ArgStr ''ERROR: No suitable candidates found.'']) (fst st)))"
    unfolding w0_def by (simp, rule electCandidate_loop)
  have rk: "rigged ext cfg io server l 0 (heap w) k"
    using assms(1-3) by (simp add: rigged_examined)
  have nr: "\<And>j. j < k \<Longrightarrow> \<not> rigged ext cfg io server l 0 (heap w) j"
    using assms(1,4) by (simp add: rigged_examined)
  show ?thesis
  proof (cases "elect_loop ext cfg io server l 0
               (w0, \<lparr> seqList = replicate (length l) 0, hiseq = 0, max_seq = 0 \<rparr>)")
    case (Inl r)
    with elect_loop_start [OF w0(1), where ext=ext and cfg=cfg and io=io and server=server and l=l]
    obtain k' where k': "k' < length l" "fst r = k'" "rigged ext cfg io server l 0 (heap w) k'"
      "\<forall>j<k'. \<not> rigged ext cfg io server l 0 (heap w) j" by auto
    have "k' = k"
    proof (rule ccontr)
      assume "k' \<noteq> k"
      then consider "k' < k" | "k < k'" by linarith
      then show False
      proof cases
        case 1 then show False using nr k'(3) by blast
      next
        case 2 then show False using rk k'(4) by blast
      qed
    qed
    then show ?thesis using w0(2) Inl k'(2) by simp
  next
    case (Inr st)
    with elect_loop_start [OF w0(1), where ext=ext and cfg=cfg and io=io and server=server and l=l]
    have "\<forall>k<length l. \<not> rigged ext cfg io server l 0 (heap w) k" by simp
    then show ?thesis using rk assms(1) by blast
  qed
qed

theorem elect_preferred_master_witness:
  "examined (cfg_ex\<lparr>prefMaster := ''db4:3306''\<rparr>) io_pref 0 [1, 2, 3] (heap w_ex) 2 \<and>
   URL (heap w_ex 3) = prefMaster (cfg_ex\<lparr>prefMaster := ''db4:3306''\<rparr>) \<and>
   spec_scores ext_ex (cfg_ex\<lparr>prefMaster := ''db4:3306''\<rparr>) io_pref 0 [1, 2, 3] 0 (heap w_ex)
     = [Some 100, Some 250, Some 180] \<and>
   fst (electCandidate ext_ex (cfg_ex\<lparr>prefMaster := ''db4:3306''\<rparr>) io_pref 0 [1, 2, 3] w_ex) = 2"
proof -
  let ?cfg = "cfg_ex\<lparr>prefMaster := ''db4:3306''\<rparr>"
  have a: "(2::nat) < length [1, 2, 3 :: addr]" by simp
  have b: "examined ?cfg io_pref 0 [1, 2, 3] (heap w_ex) 2" by code_simp
  have c: "URL (heap w_ex ([1, 2, 3] ! 2)) = prefMaster ?cfg"
    by (simp add: w_ex_def srv_ex_def)
  have d: "\<forall>j<2. \<not> (examined ?cfg io_pref 0 [1, 2, 3] (heap w_ex) j \<and>
                    URL (heap w_ex ([1, 2, 3] ! j)) = prefMaster ?cfg)"
    by (auto simp add: less_2_cases_iff w_ex_def srv_ex_def)
  have e: "spec_scores ext_ex ?cfg io_pref 0 [1, 2, 3] 0 (heap w_ex)
     = [Some 100, Some 250, Some 180]" by code_simp
  from elect_preferred_master [OF a b c d, of ext_ex] b c e show ?thesis by simp
qed

text \<open>
  C1, as stated, fails when the old master is \<open>Failed\<close>: the eligibility checks are
  then skipped, and the candidate elected here is the one that is 100 seconds behind, with
  \<open>maxDelay = 30\<close>.
\<close>

theorem elect_failed_master_skips_checks:
  "fst (electCandidate ext_ex cfg_ex io_lagging 0 [1, 2] w_failover) = 1 \<and>
   State (heap w_failover 0) = stateFailed \<and>
   Valid (Seconds_Behind_Master (ElectSlaveStatus (io_lagging 1))) \<and>
   Int64 (Seconds_Behind_Master (ElectSlaveStatus (io_lagging 1))) = 100 \<and>
   maxDelay cfg_ex = 30"
  by code_simp

text \<open>
  C1 (amended). If the index returned by \<open>electCandidate\<close> is not -1, it is the index of
  a candidate of the list whose URL is not in \<open>ignoreList\<close>; and, unless the state of the
  server on which \<open>electCandidate\<close> is called (the old master) is \<open>Failed\<close>, the
  \<open>Seconds_Behind_Master\<close> read for that candidate is valid and does not exceed
  \<open>maxDelay\<close>.
\<close>

theorem elect_result_examined:
  assumes "fst (electCandidate ext cfg io server l w) \<noteq> - 1"
  shows "\<exists>k<length l. fst (electCandidate ext cfg io server l w) = int k \<and>
     URL (heap w (l ! k)) \<notin> set (ignoreList cfg) \<and>
     (State (heap w server) \<noteq> stateFailed \<longrightarrow>
        Valid (Seconds_Behind_Master (ElectSlaveStatus (io k))) \<and>
        Int64 (Seconds_Behind_Master (ElectSlaveStatus (io k))) \<le> maxDelay cfg)"
proof -
  define w0 where "w0 = (if verbose cfg
      then logw (Logprintf ''DEBUG: Processing %d candidates'' [ArgInt (int (length l))]) w
      else w)"
  have w0: "heap w0 = heap w"
    "electCandidate ext cfg io server l w =
       (case elect_loop ext cfg io server l 0
               (w0, \<lparr> seqList = replicate (length l) 0, hiseq = 0, max_seq = 0 \<rparr>) of
          Inl r \<Rightarrow> (int (fst r), snd r)
        | Inr st \<Rightarrow>
           if max_seq (snd st) > 0 then (int (hiseq (snd st)), fst st)
           else (- 1, logw (Logprint [ArgStr ''ERROR: No suitable candidates found.'']) (fst st)))"
    unfolding w0_def by (simp, rule electCandidate_loop)
  have "\<exists>k<length l. fst (electCandidate ext cfg io server l w) = int k \<and>
          examined cfg io server l (heap w) k"
  proof (cases "elect_loop ext cfg io server l 0
               (w0, \<lparr> seqList = replicate (length l) 0, hiseq = 0, max_seq = 0 \<rparr>)")
    case (Inl r)
    with elect_loop_start [OF w0(1), where ext=ext and cfg=cfg and io=io and server=server and l=l]
    obtain k where "k < length l" "fst r = k" "rigged ext cfg io server l 0 (heap w) k"
      by auto
    then show ?thesis using w0(2) Inl by (auto simp add: rigged_examined)
  next
    case (Inr st)
    with elect_loop_start [OF w0(1), where ext=ext and cfg=cfg and io=io and server=server and l=l]
    have tr: "tracks (spec_scores ext cfg io server l 0 (heap w)) (snd st)" by simp
    have pos: "0 < max_seq (snd st)" using assms w0(2) Inr by (auto split: if_splits)
    then have hi: "hiseq (snd st) < length l"
      "spec_scores ext cfg io server l 0 (heap w) ! hiseq (snd st) \<noteq> None"
      using tr by (simp_all add: tracks_def)
    then have "examined cfg io server l (heap w) (hiseq (snd st))"
      using scored_examined [of "hiseq (snd st)" l ext cfg io server "heap w"] by simp
    moreover have "fst (electCandidate ext cfg io server l w) = int (hiseq (snd st))"
      using w0(2) Inr pos by simp
    ultimately show ?thesis using hi(1) by blast
  qed
  then show ?thesis using examined_sound by blast
qed

theorem elect_result_examined_witness:
  "fst (electCandidate ext_ex (cfg_ex\<lparr>ignoreList := [''db3:3306'']\<rparr>) io_tie 0 [1, 2, 3] w_ex) = 2 \<and>
   URL (heap w_ex 3) \<notin> set (ignoreList (cfg_ex\<lparr>ignoreList := [''db3:3306'']\<rparr>)) \<and>
   State (heap w_ex 0) \<noteq> stateFailed \<and>
   Valid (Seconds_Behind_Master (ElectSlaveStatus (io_tie 2))) \<and>
   Int64 (Seconds_Behind_Master (ElectSlaveStatus (io_tie 2)))
     \<le> maxDelay (cfg_ex\<lparr>ignoreList := [''db3:3306'']\<rparr>)"
proof -
  let ?cfg = "cfg_ex\<lparr>ignoreList := [''db3:3306'']\<rparr>"
  have r: "fst (electCandidate ext_ex ?cfg io_tie 0 [1, 2, 3] w_ex) = 2" by code_simp
  then have ne: "fst (electCandidate ext_ex ?cfg io_tie 0 [1, 2, 3] w_ex) \<noteq> - 1" by simp
  have s: "State (heap w_ex 0) \<noteq> stateFailed" by (simp add: w_ex_def srv_ex_def)
  from elect_result_examined [OF ne]
  obtain k where k: "int k = 2"
    "URL (heap w_ex ([1, 2, 3] ! k)) \<notin> set (ignoreList ?cfg)"
    "Valid (Seconds_Behind_Master (ElectSlaveStatus (io_tie k)))"
    "Int64 (Seconds_Behind_Master (ElectSlaveStatus (io_tie k))) \<le> maxDelay ?cfg"
    using r s by auto
  from k(1) have "k = 2" by simp
  with k r s show ?thesis by simp
qed

text \<open>
  C6. When the pass over the candidates runs to its end (no examined candidate is the
  preferred master): if some candidate has a score (the sum of the sequence numbers of its
  \<open>SlaveGtid\<close>) greater than 0, \<open>electCandidate\<close> returns the index of a candidate
  whose score is the greatest and which is the first to attain it; otherwise it returns -1
  and the last line it logs is "ERROR: No suitable candidates found.".
\<close>

theorem elect_highest_score:
  assumes "\<forall>k<length l. examined cfg io server l (heap w) k \<longrightarrow>
             URL (heap w (l ! k)) \<noteq> prefMaster cfg"
    and "sc = spec_scores ext cfg io server l 0 (heap w)"
    and "res = electCandidate ext cfg io server l w"
  shows "if \<exists>k<length l. \<exists>t. sc ! k = Some t \<and> 0 < t
         then \<exists>k<length l. \<exists>t. fst res = int k \<and> sc ! k = Some t \<and> 0 < t \<and>
                (\<forall>j<length l. \<forall>u. sc ! j = Some u \<longrightarrow> u \<le> t) \<and>
                (\<forall>j<k. \<forall>u. sc ! j = Some u \<longrightarrow> u < t)
         else fst res = - 1 \<and>
              last (logs (snd res)) = Logprint [ArgStr ''ERROR: No suitable candidates found.'']"
proof -
  define w0 where "w0 = (if verbose cfg
      then logw (Logprintf ''DEBUG: Processing %d candidates'' [ArgInt (int (length l))]) w
      else w)"
  have w0: "heap w0 = heap w"
    "electCandidate ext cfg io server l w =
       (case elect_loop ext cfg io server l 0
               (w0, \<lparr> seqList = replicate (length l) 0, hiseq = 0, max_seq = 0 \<rparr>) of
          Inl r \<Rightarrow> (int (fst r), snd r)
        | Inr st \<Rightarrow>
           if max_seq (snd st) > 0 then (int (hiseq (snd st)), fst st)
           else (- 1, logw (Logprint [ArgStr ''ERROR: No suitable candidates found.'']) (fst st)))"
    unfolding w0_def by (simp, rule electCandidate_loop)
  have norig: "\<And>k. k < length l \<Longrightarrow> \<not> rigged ext cfg io server l 0 (heap w) k"
    using assms(1) by (simp add: rigged_examined)
  show ?thesis
  proof (cases "elect_loop ext cfg io server l 0
               (w0, \<lparr> seqList = replicate (length l) 0, hiseq = 0, max_seq = 0 \<rparr>)")
    case (Inl r)
    with elect_loop_start [OF w0(1), where ext=ext and cfg=cfg and io=io and server=server and l=l]
    have "\<exists>k<length l. rigged ext cfg io server l 0 (heap w) k" by auto
    then show ?thesis using norig by blast
  next
    case (Inr st)
    with elect_loop_start [OF w0(1), where ext=ext and cfg=cfg and io=io and server=server and l=l]
    have tr: "tracks sc (snd st)" using assms(2) by simp
    have len: "length sc = length l" using assms(2) by simp
    show ?thesis
    proof (cases "0 < max_seq (snd st)")
      case True
      have r: "fst res = int (hiseq (snd st))" using assms(3) w0(2) Inr True by simp
      from tr True have
        "hiseq (snd st) < length l" "sc ! hiseq (snd st) = Some (max_seq (snd st))"
        "\<forall>j<length l. \<forall>u. sc ! j = Some u \<longrightarrow> u \<le> max_seq (snd st)"
        "\<forall>j<hiseq (snd st). \<forall>u. sc ! j = Some u \<longrightarrow> u < max_seq (snd st)"
        using len by (simp_all add: tracks_def)
      then show ?thesis using r True by auto
    next
      case False
      then have z: "max_seq (snd st) = 0" by (simp add: word_gt_0)
      have "\<not> (\<exists>k<length l. \<exists>t. sc ! k = Some t \<and> 0 < t)"
      proof
        assume "\<exists>k<length l. \<exists>t. sc ! k = Some t \<and> 0 < t"
        then obtain k t where "k < length l" "sc ! k = Some t" "0 < t" by blast
        then have "t \<le> max_seq (snd st)" using tr len by (simp add: tracks_def)
        then show False using z \<open>0 < t\<close> by simp
      qed
      moreover have "fst res = - 1"
        "last (logs (snd res)) = Logprint [ArgStr ''ERROR: No suitable candidates found.'']"
        using assms(3) w0(2) Inr False by simp_all
      ultimately show ?thesis by simp
    qed
  qed
qed

theorem elect_highest_score_witness:
  "spec_scores ext_ex cfg_ex io_tie 0 [1, 2, 3] 0 (heap w_ex) = [Some 100, Some 250, Some 250] \<and>
   fst (electCandidate ext_ex cfg_ex io_tie 0 [1, 2, 3] w_ex) = 1"
proof -
  let ?sc = "[Some 100, Some 250, Some 250] :: 64 word option list"
  have sc: "?sc = spec_scores ext_ex cfg_ex io_tie 0 [1, 2, 3] 0 (heap w_ex)" by code_simp
  have np: "\<forall>k<length [1, 2, 3 :: addr]. examined cfg_ex io_tie 0 [1, 2, 3] (heap w_ex) k \<longrightarrow>
             URL (heap w_ex ([1, 2, 3] ! k)) \<noteq> prefMaster cfg_ex"
    using URL_w_ex by (simp add: cfg_ex_def)
  have pos: "\<exists>k<length [1, 2, 3 :: addr]. \<exists>t. ?sc ! k = Some t \<and> 0 < t"
    by (rule exI [of _ 0]) simp
  have "\<exists>k<length [1, 2, 3 :: addr]. \<exists>t.
          fst (electCandidate ext_ex cfg_ex io_tie 0 [1, 2, 3] w_ex) = int k \<and>
          ?sc ! k = Some t \<and> 0 < t \<and>
          (\<forall>j<length [1, 2, 3 :: addr]. \<forall>u. ?sc ! j = Some u \<longrightarrow> u \<le> t) \<and>
          (\<forall>j<k. \<forall>u. ?sc ! j = Some u \<longrightarrow> u < t)"
    using elect_highest_score [OF np sc refl] by (simp only: if_P [OF pos])
  then obtain k t where k: "k < length [1, 2, 3 :: addr]"
    "fst (electCandidate ext_ex cfg_ex io_tie 0 [1, 2, 3] w_ex) = int k"
    "?sc ! k = Some t"
    "\<forall>j<length [1, 2, 3 :: addr]. \<forall>u. ?sc ! j = Some u \<longrightarrow> u \<le> t"
    "\<forall>j<k. \<forall>u. ?sc ! j = Some u \<longrightarrow> u < t"
    by blast
  have le: "250 \<le> t" using k(4) by (simp add: All_less_Suc)
  from k(1) have "k < 3" by simp
  then consider "k = 0" | "k = 1" | "k = 2" by linarith
  then have "k = 1"
  proof cases
    case 1
    then have "t = 100" using k(3) by simp
    then show ?thesis using le by simp
  next
    case 2 then show ?thesis .
  next
    case 3
    then have "t = 250" using k(3) by simp
    moreover have "250 < t" using k(5) 3 by (simp add: numeral_2_eq_2 All_less_Suc)
    ultimately show ?thesis by simp
  qed
  then have "fst (electCandidate ext_ex cfg_ex io_tie 0 [1, 2, 3] w_ex) = 1"
    using k(2) by simp
  with sc [symmetric] show ?thesis by (rule conjI)
qed


end
